theory Spec2Isabelle
  imports Complex_Main
begin

unbundle bit_operations_syntax

section \<open>Errors, arrays and the vision library\<close>

text \<open>
  The module \<^verbatim>\<open>cvhelper/image_operations.py\<close> wraps primitives of an external vision
  library. Every raise of the module, of numpy indexing and of the library is a value of
  \<open>py_error\<close>; a call returns \<open>py_error + 'r\<close>, with \<open>Inl\<close> the exception.
  Python floats are read as reals (rounding is not modelled).
\<close>

datatype py_error =
    ValueError string
  | TypeError
  | IndexError
  | KeyError
  | ZeroDivisionError
  | AttributeError
  | CvError string

text \<open>\<^verbatim>\<open>str(n)\<close> of a non-negative integer, for the f-string of the index errors.\<close>

fun str_nat :: "nat \<Rightarrow> string" where
  "str_nat n =
     (if n < 10 then [''0123456789'' ! n]
      else str_nat (n div 10) @ [''0123456789'' ! (n mod 10)])"

text \<open>
  A numpy array: its shape and its elements in row-major order. An array of the program
  always has as many elements as its shape says (\<open>nd_wf\<close>). A numpy scalar is the
  array of shape \<open>[]\<close>.
\<close>

record 'a ndarray =
  shape :: "nat list"
  data :: "'a list"

definition nd_wf :: "'a ndarray \<Rightarrow> bool" where
  "nd_wf a = (length (data a) = prod_list (shape a))"

definition ndim :: "'a ndarray \<Rightarrow> nat" where
  "ndim a = length (shape a)"

definition nd_size :: "'a ndarray \<Rightarrow> nat" where
  "nd_size a = prod_list (shape a)"

definition zeros_like :: "('a::zero) ndarray \<Rightarrow> 'a ndarray" where
  "zeros_like a = \<lparr>shape = shape a, data = replicate (prod_list (shape a)) 0\<rparr>"

datatype MorphShape = RECT | CROSS

datatype AngleUnit = RADIANS | DEGREES

text \<open>
  The library \<^verbatim>\<open>cv\<close> is not part of the repository: its constants and primitives are
  the fields of a record that every operation takes as its first argument. A primitive
  may raise. \<open>'k\<close> is the type of structuring elements, \<open>'m\<close> of affine matrices.
  \<open>cv_normalize\<close> takes the destination array as its second argument, as the library
  does, and returns what the destination holds after the call; like the other primitives
  it reads its source and does not write to it. \<open>cv_threshold\<close> returns the pair of
  the threshold used and the image.
\<close>

record ('a, 'k, 'm) cv =
  cv_MORPH_RECT :: int
  cv_MORPH_CROSS :: int
  cv_MORPH_OPEN :: int
  cv_MORPH_CLOSE :: int
  cv_NORM_MINMAX :: int
  cv_INTER_CUBIC :: int
  cv_COLOR_BGR2GRAY :: int
  cv_COLOR_BGR2HSV :: int
  cv_COLOR_BGR2XYZ :: int
  cv_COLOR_BGR2HLS :: int
  cv_COLOR_BGR2LUV :: int
  cv_THRESH_BINARY :: int
  cv_THRESH_OTSU :: int
  cv_THRESH_TOZERO :: int
  cv_getStructuringElement :: "int \<Rightarrow> int \<times> int \<Rightarrow> py_error + 'k"
  cv_dilate :: "'a ndarray \<Rightarrow> 'k \<Rightarrow> py_error + 'a ndarray"
  cv_morphologyEx :: "'a ndarray \<Rightarrow> int \<Rightarrow> 'k \<Rightarrow> int \<Rightarrow> py_error + 'a ndarray"
  cv_normalize :: "'a ndarray \<Rightarrow> 'a ndarray \<Rightarrow> real \<Rightarrow> real \<Rightarrow> int \<Rightarrow> py_error + 'a ndarray"
  cv_resize ::
    "'a ndarray \<Rightarrow> (nat \<times> nat) option \<Rightarrow> real \<Rightarrow> real \<Rightarrow> int \<Rightarrow> py_error + 'a ndarray"
  cv_cvtColor :: "'a ndarray \<Rightarrow> int \<Rightarrow> py_error + 'a ndarray"
  cv_GaussianBlur :: "'a ndarray \<Rightarrow> int \<times> int \<Rightarrow> real \<Rightarrow> real \<Rightarrow> py_error + 'a ndarray"
  cv_medianBlur :: "'a ndarray \<Rightarrow> int \<Rightarrow> py_error + 'a ndarray"
  cv_threshold :: "'a ndarray \<Rightarrow> real \<Rightarrow> real \<Rightarrow> int \<Rightarrow> py_error + (real \<times> 'a ndarray)"
  cv_Canny :: "'a ndarray \<Rightarrow> real \<Rightarrow> real \<Rightarrow> bool \<Rightarrow> py_error + 'a ndarray"
  cv_getRotationMatrix2D :: "real \<times> real \<Rightarrow> real \<Rightarrow> real \<Rightarrow> py_error + 'm"
  cv_warpAffine :: "'a ndarray \<Rightarrow> 'm \<Rightarrow> nat list \<Rightarrow> py_error + 'a ndarray"
  cv_moments :: "'a ndarray \<Rightarrow> py_error + (string \<rightharpoonup> real)"

fun MorphShape_value :: "('a, 'k, 'm) cv \<Rightarrow> MorphShape \<Rightarrow> int" where
  "MorphShape_value cv RECT = cv_MORPH_RECT cv"
| "MorphShape_value cv CROSS = cv_MORPH_CROSS cv"

section \<open>The image operations\<close>

text \<open>An image argument is \<open>None\<close> or an array.\<close>

definition error_if_image_empty :: "'a ndarray option \<Rightarrow> py_error + 'a ndarray" where
  "error_if_image_empty image' =
     (case image' of
        None \<Rightarrow> Inl (ValueError ''Image is empty'')
      | Some a \<Rightarrow> if nd_size a = 0 then Inl (ValueError ''Image is empty'') else Inr a)"

definition dilate ::
  "('a, 'k, 'm) cv \<Rightarrow> 'a ndarray option \<Rightarrow> int \<Rightarrow> MorphShape \<Rightarrow> py_error + 'a ndarray" where
  "dilate cv image' kernel_size shp =
     (case error_if_image_empty image' of
        Inl e \<Rightarrow> Inl e
      | Inr a \<Rightarrow>
          (case cv_getStructuringElement cv (MorphShape_value cv shp) (kernel_size, kernel_size) of
             Inl e \<Rightarrow> Inl e
           | Inr k \<Rightarrow> cv_dilate cv a k))"

definition morph_open ::
  "('a, 'k, 'm) cv \<Rightarrow> 'a ndarray option \<Rightarrow> int \<Rightarrow> int \<Rightarrow> py_error + 'a ndarray" where
  "morph_open cv image' sz iterations =
     (case error_if_image_empty image' of
        Inl e \<Rightarrow> Inl e
      | Inr a \<Rightarrow>
          (case cv_getStructuringElement cv (cv_MORPH_RECT cv) (sz, sz) of
             Inl e \<Rightarrow> Inl e
           | Inr k \<Rightarrow> cv_morphologyEx cv a (cv_MORPH_OPEN cv) k iterations))"

definition morph_close ::
  "('a, 'k, 'm) cv \<Rightarrow> 'a ndarray option \<Rightarrow> int \<Rightarrow> int \<Rightarrow> py_error + 'a ndarray" where
  "morph_close cv image' sz iterations =
     (case error_if_image_empty image' of
        Inl e \<Rightarrow> Inl e
      | Inr a \<Rightarrow>
          (case cv_getStructuringElement cv (cv_MORPH_RECT cv) (sz, sz) of
             Inl e \<Rightarrow> Inl e
           | Inr k \<Rightarrow> cv_morphologyEx cv a (cv_MORPH_CLOSE cv) k iterations))"

text \<open>
  \<^verbatim>\<open>cv.normalize(image, normalized, max, min, cv.NORM_MINMAX)\<close>: the third positional
  argument of the call is \<^verbatim>\<open>max\<close>, the fourth is \<^verbatim>\<open>min\<close>.
\<close>

definition normalize_image ::
  "(('a::zero), 'k, 'm) cv \<Rightarrow> 'a ndarray option \<Rightarrow> real \<Rightarrow> real \<Rightarrow> py_error + 'a ndarray" where
  "normalize_image cv image' min_v max_v =
     (case error_if_image_empty image' of
        Inl e \<Rightarrow> Inl e
      | Inr a \<Rightarrow> cv_normalize cv a (zeros_like a) max_v min_v (cv_NORM_MINMAX cv))"


text \<open>
  \<^verbatim>\<open>cv.resize(image, None, fx=1 / factor, fy=1 / factor, ...)\<close>: the size argument is
  \<^verbatim>\<open>None\<close>, and \<^verbatim>\<open>1 / factor\<close> raises ZeroDivisionError when the factor is 0.
\<close>

definition resize ::
  "('a, 'k, 'm) cv \<Rightarrow> 'a ndarray option \<Rightarrow> int \<Rightarrow> py_error + 'a ndarray" where
  "resize cv image' factor =
     (case error_if_image_empty image' of
        Inl e \<Rightarrow> Inl e
      | Inr a \<Rightarrow>
          if factor = 0 then Inl ZeroDivisionError
          else cv_resize cv a None (1 / real_of_int factor) (1 / real_of_int factor)
                 (cv_INTER_CUBIC cv))"

definition bgr2gray :: "('a, 'k, 'm) cv \<Rightarrow> 'a ndarray option \<Rightarrow> py_error + 'a ndarray" where
  "bgr2gray cv image' =
     (case error_if_image_empty image' of
        Inl e \<Rightarrow> Inl e
      | Inr a \<Rightarrow> cv_cvtColor cv a (cv_COLOR_BGR2GRAY cv))"

definition bgr2hsv :: "('a, 'k, 'm) cv \<Rightarrow> 'a ndarray option \<Rightarrow> py_error + 'a ndarray" where
  "bgr2hsv cv image' =
     (case error_if_image_empty image' of
        Inl e \<Rightarrow> Inl e
      | Inr a \<Rightarrow> cv_cvtColor cv a (cv_COLOR_BGR2HSV cv))"

definition bgr2xyz :: "('a, 'k, 'm) cv \<Rightarrow> 'a ndarray option \<Rightarrow> py_error + 'a ndarray" where
  "bgr2xyz cv image' =
     (case error_if_image_empty image' of
        Inl e \<Rightarrow> Inl e
      | Inr a \<Rightarrow> cv_cvtColor cv a (cv_COLOR_BGR2XYZ cv))"

definition bgr2hls :: "('a, 'k, 'm) cv \<Rightarrow> 'a ndarray option \<Rightarrow> py_error + 'a ndarray" where
  "bgr2hls cv image' =
     (case error_if_image_empty image' of
        Inl e \<Rightarrow> Inl e
      | Inr a \<Rightarrow> cv_cvtColor cv a (cv_COLOR_BGR2HLS cv))"

definition bgr2luv :: "('a, 'k, 'm) cv \<Rightarrow> 'a ndarray option \<Rightarrow> py_error + 'a ndarray" where
  "bgr2luv cv image' =
     (case error_if_image_empty image' of
        Inl e \<Rightarrow> Inl e
      | Inr a \<Rightarrow> cv_cvtColor cv a (cv_COLOR_BGR2LUV cv))"

definition blur_gaussian ::
  "('a, 'k, 'm) cv \<Rightarrow> 'a ndarray option \<Rightarrow> int \<Rightarrow> real option \<Rightarrow> real option
     \<Rightarrow> py_error + 'a ndarray" where
  "blur_gaussian cv image' kernel_size sigma_x sigma_y =
     (case error_if_image_empty image' of
        Inl e \<Rightarrow> Inl e
      | Inr a \<Rightarrow>
          cv_GaussianBlur cv a (kernel_size, kernel_size)
            (case sigma_x of None \<Rightarrow> 0 | Some s \<Rightarrow> s)
            (case sigma_y of None \<Rightarrow> 0 | Some s \<Rightarrow> s))"

definition blur_median ::
  "('a, 'k, 'm) cv \<Rightarrow> 'a ndarray option \<Rightarrow> int \<Rightarrow> py_error + 'a ndarray" where
  "blur_median cv image' kernel_size =
     (case error_if_image_empty image' of
        Inl e \<Rightarrow> Inl e
      | Inr a \<Rightarrow> cv_medianBlur cv a kernel_size)"

text \<open>\<^verbatim>\<open>_, img = cv.threshold(...)\<close>: the second component of the primitive's pair.\<close>

definition threshold_otsu ::
  "('a, 'k, 'm) cv \<Rightarrow> 'a ndarray option \<Rightarrow> real \<Rightarrow> py_error + 'a ndarray" where
  "threshold_otsu cv image' max_value =
     (case error_if_image_empty image' of
        Inl e \<Rightarrow> Inl e
      | Inr a \<Rightarrow>
          (case cv_threshold cv a 0 max_value (cv_THRESH_BINARY cv + cv_THRESH_OTSU cv) of
             Inl e \<Rightarrow> Inl e
           | Inr (_, img) \<Rightarrow> Inr img))"

definition threshold_binary ::
  "('a, 'k, 'm) cv \<Rightarrow> 'a ndarray option \<Rightarrow> real \<Rightarrow> real \<Rightarrow> py_error + 'a ndarray" where
  "threshold_binary cv image' val max_value =
     (case error_if_image_empty image' of
        Inl e \<Rightarrow> Inl e
      | Inr a \<Rightarrow>
          (case cv_threshold cv a val max_value (cv_THRESH_BINARY cv) of
             Inl e \<Rightarrow> Inl e
           | Inr (_, img) \<Rightarrow> Inr img))"

definition threshold_tozero ::
  "('a, 'k, 'm) cv \<Rightarrow> 'a ndarray option \<Rightarrow> real \<Rightarrow> real \<Rightarrow> py_error + 'a ndarray" where
  "threshold_tozero cv image' val max_value =
     (case error_if_image_empty image' of
        Inl e \<Rightarrow> Inl e
      | Inr a \<Rightarrow>
          (case cv_threshold cv a val max_value (cv_THRESH_TOZERO cv) of
             Inl e \<Rightarrow> Inl e
           | Inr (_, img) \<Rightarrow> Inr img))"

definition threshold_otsu_tozero ::
  "('a, 'k, 'm) cv \<Rightarrow> 'a ndarray option \<Rightarrow> real \<Rightarrow> py_error + 'a ndarray" where
  "threshold_otsu_tozero cv image' max_value =
     (case error_if_image_empty image' of
        Inl e \<Rightarrow> Inl e
      | Inr a \<Rightarrow>
          (case cv_threshold cv a 0 max_value (cv_THRESH_OTSU cv OR cv_THRESH_TOZERO cv) of
             Inl e \<Rightarrow> Inl e
           | Inr (_, img) \<Rightarrow> Inr img))"

definition canny ::
  "('a, 'k, 'm) cv \<Rightarrow> 'a ndarray option \<Rightarrow> real \<Rightarrow> real \<Rightarrow> py_error + 'a ndarray" where
  "canny cv image' low_threshold high_threshold =
     (case error_if_image_empty image' of
        Inl e \<Rightarrow> Inl e
      | Inr a \<Rightarrow> cv_Canny cv a low_threshold high_threshold True)"

section \<open>Array indexing\<close>

text \<open>
  Assignment into a selection broadcasts the value to the selection's shape, as numpy
  does: leading unit dimensions in excess are dropped, the shape is padded with unit
  dimensions on the left, and a dimension of the value is the target's or 1. A value of
  the target's shape is copied as it is. The text of numpy's error is shortened.
\<close>

fun strip_ones :: "nat \<Rightarrow> nat list \<Rightarrow> nat list" where
  "strip_ones n [] = []"
| "strip_ones n (d # ds) = (if n < length (d # ds) \<and> d = 1 then strip_ones n ds else d # ds)"

fun bcast_data :: "nat list \<Rightarrow> 'a list \<Rightarrow> nat list \<Rightarrow> 'a list" where
  "bcast_data (v # vs) xs (t # ts) =
     (if v = t
      then concat (map (\<lambda>k. bcast_data vs (take (prod_list vs) (drop (k * prod_list vs) xs)) ts)
                     [0..<t])
      else concat (replicate t (bcast_data vs xs ts)))"
| "bcast_data vs xs ts = xs"

definition nd_broadcast_to :: "'a ndarray \<Rightarrow> nat list \<Rightarrow> py_error + 'a list" where
  "nd_broadcast_to v ts =
     (if shape v = ts then Inr (data v)
      else
        let vs = strip_ones (length ts) (shape v) in
        if length ts < length vs then Inl (ValueError ''could not broadcast input array'')
        else
          let vs' = replicate (length ts - length vs) 1 @ vs in
          if list_all2 (\<lambda>d t. d = t \<or> d = 1) vs' ts then Inr (bcast_data vs' (data v) ts)
          else Inl (ValueError ''could not broadcast input array''))"

text \<open>
  \<^verbatim>\<open>a[i0, i1, ...]\<close> with integers: a negative index counts from the end, an index out
  of range or one index too many raises IndexError. The selection is the contiguous block
  at the computed offset.
\<close>

fun nd_offset :: "nat list \<Rightarrow> int list \<Rightarrow> py_error + nat" where
  "nd_offset sh [] = Inr 0"
| "nd_offset [] (i # is) = Inl IndexError"
| "nd_offset (d # ds) (i # is) =
     (let j = (if i < 0 then i + int d else i) in
      if 0 \<le> j \<and> j < int d then
        (case nd_offset ds is of
           Inl e \<Rightarrow> Inl e
         | Inr off \<Rightarrow> Inr (nat j * prod_list ds + off))
      else Inl IndexError)"

definition nd_getitem :: "'a ndarray \<Rightarrow> int list \<Rightarrow> py_error + 'a ndarray" where
  "nd_getitem a idx =
     (case nd_offset (shape a) idx of
        Inl e \<Rightarrow> Inl e
      | Inr off \<Rightarrow>
          let sh = drop (length idx) (shape a) in
          Inr \<lparr>shape = sh, data = take (prod_list sh) (drop off (data a))\<rparr>)"

definition nd_setitem :: "'a ndarray \<Rightarrow> int list \<Rightarrow> 'a ndarray \<Rightarrow> py_error + 'a ndarray" where
  "nd_setitem a idx v =
     (case nd_offset (shape a) idx of
        Inl e \<Rightarrow> Inl e
      | Inr off \<Rightarrow>
          (case nd_broadcast_to v (drop (length idx) (shape a)) of
             Inl e \<Rightarrow> Inl e
           | Inr vs \<Rightarrow>
               Inr (a\<lparr>data := take off (data a) @ vs @ drop (off + length vs) (data a)\<rparr>)))"

text \<open>
  numpy's \<^verbatim>\<open>a[i]\<close> with one integer; the chained subscripts \<^verbatim>\<open>points[i][0]\<close> and
  \<^verbatim>\<open>points[i][0][j]\<close> apply it two and three times.
\<close>

definition nd_index :: "'a ndarray \<Rightarrow> int \<Rightarrow> py_error + 'a ndarray" where
  "nd_index a i = nd_getitem a [i]"

text \<open>\<^verbatim>\<open>a[..., i]\<close> and \<^verbatim>\<open>a[..., i] = v\<close>: the index selects on the last axis.\<close>

definition nd_get_last :: "'a ndarray \<Rightarrow> nat \<Rightarrow> py_error + 'a ndarray" where
  "nd_get_last a i =
     (if shape a = [] \<or> last (shape a) \<le> i then Inl IndexError
      else Inr \<lparr>shape = butlast (shape a),
                data = map (\<lambda>k. data a ! (k * last (shape a) + i))
                         [0..<prod_list (butlast (shape a))]\<rparr>)"

definition nd_set_last :: "'a ndarray \<Rightarrow> nat \<Rightarrow> 'a ndarray \<Rightarrow> py_error + 'a ndarray" where
  "nd_set_last a i v =
     (if shape a = [] \<or> last (shape a) \<le> i then Inl IndexError
      else
        (case nd_broadcast_to v (butlast (shape a)) of
           Inl e \<Rightarrow> Inl e
         | Inr vs \<Rightarrow>
             Inr (a\<lparr>data := map (\<lambda>p. if p mod last (shape a) = i then vs ! (p div last (shape a))
                                       else data a ! p)
                                [0..<length (data a)]\<rparr>)))"

section \<open>Rotation\<close>

text \<open>
  The loop \<^verbatim>\<open>for i in range(copy.shape[-1])\<close> of \<^verbatim>\<open>rotate_image\<close>: the right-hand side
  is evaluated first, then assigned to channel \<open>i\<close> of the copy.
\<close>

fun rotate_channels ::
  "('a, 'k, 'm) cv \<Rightarrow> 'a ndarray \<Rightarrow> 'm \<Rightarrow> nat list \<Rightarrow> 'a ndarray \<Rightarrow> nat list
     \<Rightarrow> py_error + 'a ndarray" where
  "rotate_channels cv image' rotation_matrix shp copy [] = Inr copy"
| "rotate_channels cv image' rotation_matrix shp copy (i # is) =
     (case nd_get_last image' i of
        Inl e \<Rightarrow> Inl e
      | Inr ch \<Rightarrow>
          (case cv_warpAffine cv ch rotation_matrix shp of
             Inl e \<Rightarrow> Inl e
           | Inr w \<Rightarrow>
               (case nd_set_last copy i w of
                  Inl e \<Rightarrow> Inl e
                | Inr copy' \<Rightarrow> rotate_channels cv image' rotation_matrix shp copy' is)))"

text \<open>
  \<^verbatim>\<open>image.shape[::-1]\<close> is the reversed shape, \<^verbatim>\<open>image.shape[-2::-1]\<close> the reversed
  shape without its last entry. The matrix is built before \<^verbatim>\<open>image.ndim\<close> is read,
  which raises AttributeError on \<^verbatim>\<open>None\<close>.
\<close>

definition rotate_image ::
  "(('a::zero), 'k, 'm) cv \<Rightarrow> 'a ndarray option \<Rightarrow> real \<times> real \<Rightarrow> real \<Rightarrow> real \<Rightarrow> AngleUnit
     \<Rightarrow> py_error + 'a ndarray" where
  "rotate_image cv image' center angle scale unit =
     (let angle = (if unit = RADIANS then 180 / pi * angle else angle) in
      case cv_getRotationMatrix2D cv center angle scale of
        Inl e \<Rightarrow> Inl e
      | Inr rotation_matrix \<Rightarrow>
          (case image' of
             None \<Rightarrow> Inl AttributeError
           | Some a \<Rightarrow>
               if ndim a = 2 then cv_warpAffine cv a rotation_matrix (rev (shape a))
               else if ndim a = 3 then
                 rotate_channels cv a rotation_matrix (rev (butlast (shape a))) (zeros_like a)
                   [0..<last (shape (zeros_like a))]
               else Inl (ValueError ''Image must have 2 or 3 dimensions.'')))"

section \<open>Contours\<close>

text \<open>
  A \<^verbatim>\<open>Contour\<close> keeps a reference to the points array it was given, and
  \<^verbatim>\<open>scale_contour_to_rect\<close> makes a second object over the array of its argument. So
  arrays and contour objects live in a store: \<open>arrays\<close> maps an address to the array
  there, \<open>contours\<close> lists the contour objects created so far (a reference to an object
  is its index, a new object is appended). An operation that writes takes the store and
  returns it updated, also when it raises. The moment dictionary is never written by the
  module and is kept by value in the object. The elements of a points array and the
  coordinates of a rectangle are of one numeric type \<open>'a\<close>: the code subtracts one from
  the other and stores the difference in the array, and conversions between numeric types
  are not modelled.

  The module \<^verbatim>\<open>model\<close> of the package is not among the sources; of a \<^verbatim>\<open>Rect\<close> only
  the attributes \<^verbatim>\<open>x\<close> and \<^verbatim>\<open>y\<close> are read, of a \<^verbatim>\<open>Point\<close> only its two
  components (a pair above).
\<close>

type_synonym addr = nat

record Contour =
  points :: addr
  moment :: "string \<rightharpoonup> real"
  area :: real

record 'a heap =
  arrays :: "addr \<Rightarrow> 'a ndarray"
  contours :: "Contour list"

record 'a Rect =
  rect_x :: 'a
  rect_y :: 'a

text \<open>A subscript of a contour: an integer or a tuple of integers.\<close>

datatype key = KInt int | KTuple "int list"

text \<open>
  \<^verbatim>\<open>Contour(points, moment)\<close>: the moments are computed by the library when none are
  given, and \<^verbatim>\<open>moment["m00"]\<close> raises KeyError when the key is missing.
\<close>

definition Contour_init ::
  "('a, 'k, 'm) cv \<Rightarrow> 'a heap \<Rightarrow> addr \<Rightarrow> (string \<rightharpoonup> real) option
     \<Rightarrow> (py_error + addr) \<times> 'a heap" where
  "Contour_init cv h pts moment_arg =
     (case (case moment_arg of None \<Rightarrow> cv_moments cv (arrays h pts) | Some m \<Rightarrow> Inr m) of
        Inl e \<Rightarrow> (Inl e, h)
      | Inr m \<Rightarrow>
          (case m ''m00'' of
             None \<Rightarrow> (Inl KeyError, h)
           | Some a \<Rightarrow>
               (Inr (length (contours h)),
                h\<lparr>contours := contours h @ [\<lparr>points = pts, moment = m, area = a\<rparr>]\<rparr>)))"

text \<open>\<^verbatim>\<open>len\<close> of an array is its first dimension; an array without dimensions has none.\<close>

definition nd_len :: "'a ndarray \<Rightarrow> py_error + nat" where
  "nd_len a = (case shape a of [] \<Rightarrow> Inl TypeError | d # ds \<Rightarrow> Inr d)"

definition Contour_len :: "'a heap \<Rightarrow> addr \<Rightarrow> py_error + nat" where
  "Contour_len h self = nd_len (arrays h (points (contours h ! self)))"

text \<open>
  \<^verbatim>\<open>key[0]\<close> and \<^verbatim>\<open>key[1]\<close> raise IndexError on a tuple that is too short.
\<close>

definition Contour_getitem :: "'a heap \<Rightarrow> addr \<Rightarrow> key \<Rightarrow> py_error + 'a ndarray" where
  "Contour_getitem h self k =
     (case k of
        KInt i \<Rightarrow> nd_getitem (arrays h (points (contours h ! self))) [i, 0]
      | KTuple ks \<Rightarrow>
          if 2 < length ks then Inl (ValueError (''Too many indices: '' @ str_nat (length ks)))
          else
            (case ks of
               [k0, k1] \<Rightarrow> nd_getitem (arrays h (points (contours h ! self))) [k0, 0, k1]
             | _ \<Rightarrow> Inl IndexError))"

text \<open>
  \<^verbatim>\<open>__setitem__\<close>: after the write of the integer branch the method goes on to
  \<^verbatim>\<open>len(key)\<close>, which raises TypeError on an integer.
\<close>

definition write_points :: "'a heap \<Rightarrow> addr \<Rightarrow> 'a ndarray \<Rightarrow> 'a heap" where
  "write_points h self a = h\<lparr>arrays := (arrays h)(points (contours h ! self) := a)\<rparr>"

definition Contour_setitem ::
  "'a heap \<Rightarrow> addr \<Rightarrow> key \<Rightarrow> 'a ndarray \<Rightarrow> (py_error + unit) \<times> 'a heap" where
  "Contour_setitem h self k v =
     (case k of
        KInt i \<Rightarrow>
          (case nd_setitem (arrays h (points (contours h ! self))) [i, 0] v of
             Inl e \<Rightarrow> (Inl e, h)
           | Inr a \<Rightarrow> (Inl TypeError, write_points h self a))
      | KTuple ks \<Rightarrow>
          if 2 < length ks then (Inl (ValueError (''Too many indices: '' @ str_nat (length ks))), h)
          else
            (case ks of
               [k0, k1] \<Rightarrow>
                 (case nd_setitem (arrays h (points (contours h ! self))) [k0, 0, k1] v of
                    Inl e \<Rightarrow> (Inl e, h)
                  | Inr a \<Rightarrow> (Inr (), write_points h self a))
             | _ \<Rightarrow> (Inl IndexError, h)))"

text \<open>\<^verbatim>\<open>contour[i, 0] - rect.x\<close>: the number is subtracted from every element.\<close>

definition nd_sub :: "('a::minus) ndarray \<Rightarrow> 'a \<Rightarrow> 'a ndarray" where
  "nd_sub v d = v\<lparr>data := map (\<lambda>e. e - d) (data v)\<rparr>"

text \<open>The body of the loop of \<^verbatim>\<open>scale_contour_to_rect\<close>, over the indices of the range.\<close>

fun scale_points ::
  "('a::minus) heap \<Rightarrow> addr \<Rightarrow> 'a Rect \<Rightarrow> nat list \<Rightarrow> (py_error + addr) \<times> 'a heap" where
  "scale_points h contour rect [] = (Inr contour, h)"
| "scale_points h contour rect (i # is) =
     (case Contour_getitem h contour (KTuple [int i, 0]) of
        Inl e \<Rightarrow> (Inl e, h)
      | Inr v0 \<Rightarrow>
          (case Contour_setitem h contour (KTuple [int i, 0]) (nd_sub v0 (rect_x rect)) of
             (Inl e, h1) \<Rightarrow> (Inl e, h1)
           | (Inr u, h1) \<Rightarrow>
               (case Contour_getitem h1 contour (KTuple [int i, 1]) of
                  Inl e \<Rightarrow> (Inl e, h1)
                | Inr v1 \<Rightarrow>
                    (case Contour_setitem h1 contour (KTuple [int i, 1]) (nd_sub v1 (rect_y rect)) of
                       (Inl e, h2) \<Rightarrow> (Inl e, h2)
                     | (Inr u, h2) \<Rightarrow> scale_points h2 contour rect is))))"

text \<open>
  \<^verbatim>\<open>contour = Contour(contour.points, contour.moment)\<close> rebinds the local name to a new
  object over the same array; the loop runs over \<^verbatim>\<open>range(len(contour))\<close>.
\<close>

definition scale_contour_to_rect ::
  "(('a::minus), 'k, 'm) cv \<Rightarrow> 'a heap \<Rightarrow> addr \<Rightarrow> 'a Rect \<Rightarrow> (py_error + addr) \<times> 'a heap" where
  "scale_contour_to_rect cv h contour rect =
     (case Contour_init cv h (points (contours h ! contour))
             (Some (moment (contours h ! contour))) of
        (Inl e, h0) \<Rightarrow> (Inl e, h0)
      | (Inr contour', h0) \<Rightarrow>
          (case Contour_len h0 contour' of
             Inl e \<Rightarrow> (Inl e, h0)
           | Inr n \<Rightarrow> scale_points h0 contour' rect [0..<n]))"

section \<open>A library instance and data for evaluation\<close>

text \<open>
  A small stand-in for the library, used where a statement is evaluated on concrete
  input. Its \<open>cv_normalize\<close> is a min-max normalisation of integer pixels: the range is
  between the smaller and the larger of the two bounds, the least pixel goes to the
  smaller bound and the greatest to the larger, and an image of one value goes to the
  smaller bound. \<open>cv_getStructuringElement\<close> rejects a non-positive size,
  \<open>cv_warpAffine\<close> rejects a size that is not the source's, and the other primitives
  return their source unchanged.
\<close>

definition minmax_normalize ::
  "int ndarray \<Rightarrow> int ndarray \<Rightarrow> real \<Rightarrow> real \<Rightarrow> int \<Rightarrow> py_error + int ndarray" where
  "minmax_normalize src dst alpha beta norm_type =
     (case data src of
        [] \<Rightarrow> Inr dst
      | v # vs \<Rightarrow>
          let dmin = min alpha beta; dmax = max alpha beta;
              smin = fold min vs v; smax = fold max vs v;
              scale = (if smin < smax then (dmax - dmin) / real_of_int (smax - smin) else 0)
          in Inr (dst\<lparr>data := map (\<lambda>p. round (real_of_int (p - smin) * scale + dmin))
                                   (data src)\<rparr>))"

definition demo_cv :: "(int, int \<times> int, real) cv" where
  "demo_cv =
     \<lparr>cv_MORPH_RECT = 0, cv_MORPH_CROSS = 1, cv_MORPH_OPEN = 2, cv_MORPH_CLOSE = 3,
      cv_NORM_MINMAX = 32, cv_INTER_CUBIC = 2,
      cv_COLOR_BGR2GRAY = 6, cv_COLOR_BGR2HSV = 40, cv_COLOR_BGR2XYZ = 32,
      cv_COLOR_BGR2HLS = 52, cv_COLOR_BGR2LUV = 50,
      cv_THRESH_BINARY = 0, cv_THRESH_OTSU = 8, cv_THRESH_TOZERO = 3,
      cv_getStructuringElement =
        (\<lambda>s ksize. if fst ksize \<le> 0 then Inl (CvError ''ksize'') else Inr ksize),
      cv_dilate = (\<lambda>src k. Inr src),
      cv_morphologyEx = (\<lambda>src op k iterations. Inr src),
      cv_normalize = minmax_normalize,
      cv_resize = (\<lambda>src dsize fx fy interpolation. Inr src),
      cv_cvtColor = (\<lambda>src code. Inr src),
      cv_GaussianBlur = (\<lambda>src ksize sx sy. Inr src),
      cv_medianBlur = (\<lambda>src ksize. Inr src),
      cv_threshold = (\<lambda>src thresh maxval type. Inr (thresh, src)),
      cv_Canny = (\<lambda>src t1 t2 l2. Inr src),
      cv_getRotationMatrix2D = (\<lambda>center angle scale. Inr angle),
      cv_warpAffine =
        (\<lambda>src m dsize. if shape src = rev dsize then Inr src else Inl (CvError ''dsize'')),
      cv_moments = (\<lambda>pts. Inr [''m00'' \<mapsto> 0])\<rparr>"

definition demo_image :: "int ndarray" where
  "demo_image = \<lparr>shape = [1, 2], data = [5, 7]\<rparr>"

definition empty_image :: "int ndarray" where
  "empty_image = \<lparr>shape = [0, 3], data = []\<rparr>"


definition demo_bgr :: "int ndarray" where
  "demo_bgr = \<lparr>shape = [1, 2, 2], data = [1, 2, 3, 4]\<rparr>"

definition demo_points :: "int ndarray" where
  "demo_points = \<lparr>shape = [2, 1, 2], data = [10, 20, 30, 40]\<rparr>"

definition demo_heap :: "int heap" where
  "demo_heap =
     \<lparr>arrays = (\<lambda>q. if q = 0 then demo_points else \<lparr>shape = [0, 1, 2], data = []\<rparr>),
      contours = [\<lparr>points = 0, moment = [''m00'' \<mapsto> 4], area = 4\<rparr>]\<rparr>"

definition demo_rect :: "int Rect" where
  "demo_rect = \<lparr>rect_x = 1, rect_y = 2\<rparr>"

definition fresh_heap :: "int heap" where
  "fresh_heap = demo_heap\<lparr>contours := []\<rparr>"

section \<open>Properties of the image operations\<close>

lemma error_if_image_empty_Some:
  "nd_size a \<noteq> 0 \<Longrightarrow> error_if_image_empty (Some a) = Inr a"
  by (simp add: error_if_image_empty_def)

lemma error_if_image_empty_raises:
  "image' = None \<or> (\<exists>a. image' = Some a \<and> nd_size a = 0)
     \<Longrightarrow> error_if_image_empty image' = Inl (ValueError ''Image is empty'')"
  by (auto simp: error_if_image_empty_def)

text \<open>
  C3. On a non-empty image, \<^verbatim>\<open>dilate(image, k, shape)\<close> is the result of the library's
  dilation of the image by the structuring element that \<^verbatim>\<open>cv.getStructuringElement\<close>
  builds for the value of the shape (RECT or CROSS) and the size \<open>(k, k)\<close>; nothing is
  done to the result, and an exception of either primitive is passed on.
\<close>

theorem dilate_delegates:
  "nd_size a \<noteq> 0 \<Longrightarrow>
     dilate cv (Some a) k RECT =
       (case cv_getStructuringElement cv (cv_MORPH_RECT cv) (k, k) of
          Inl e \<Rightarrow> Inl e | Inr se \<Rightarrow> cv_dilate cv a se)
     \<and> dilate cv (Some a) k CROSS =
       (case cv_getStructuringElement cv (cv_MORPH_CROSS cv) (k, k) of
          Inl e \<Rightarrow> Inl e | Inr se \<Rightarrow> cv_dilate cv a se)"
  by (simp add: dilate_def error_if_image_empty_Some)

theorem dilate_delegates_witness:
  "nd_size demo_image \<noteq> 0
     \<and> dilate demo_cv (Some demo_image) 3 RECT = Inr demo_image
     \<and> dilate demo_cv (Some demo_image) 0 CROSS = Inl (CvError ''ksize'')"
proof -
  have ne: "nd_size demo_image \<noteq> 0" by (simp add: nd_size_def demo_image_def)
  have "dilate demo_cv (Some demo_image) 3 RECT = Inr demo_image"
    using dilate_delegates [OF ne, of demo_cv 3] by (simp add: demo_cv_def)
  moreover have "dilate demo_cv (Some demo_image) 0 CROSS = Inl (CvError ''ksize'')"
    using dilate_delegates [OF ne, of demo_cv 0] by (simp add: demo_cv_def)
  ultimately show ?thesis using ne by simp
qed

text \<open>
  C4. On a non-empty image, \<^verbatim>\<open>threshold_otsu(image, max_value)\<close> calls the library's
  thresholding with threshold 0, \<open>max_value\<close> and the flag THRESH_BINARY + THRESH_OTSU,
  and returns the image of the pair the primitive returns.
\<close>

theorem threshold_otsu_forwards:
  "nd_size a \<noteq> 0 \<Longrightarrow>
     threshold_otsu cv (Some a) max_value =
       (case cv_threshold cv a 0 max_value (cv_THRESH_BINARY cv + cv_THRESH_OTSU cv) of
          Inl e \<Rightarrow> Inl e | Inr r \<Rightarrow> Inr (snd r))"
  by (simp add: threshold_otsu_def error_if_image_empty_Some split: sum.splits prod.splits)

theorem threshold_otsu_forwards_witness:
  "nd_size demo_image \<noteq> 0 \<and> threshold_otsu demo_cv (Some demo_image) 255 = Inr demo_image"
proof -
  have ne: "nd_size demo_image \<noteq> 0" by (simp add: nd_size_def demo_image_def)
  show ?thesis using ne threshold_otsu_forwards [OF ne, of demo_cv 255] by (simp add: demo_cv_def)
qed




text \<open>
  C8. When the image is \<^verbatim>\<open>None\<close> or has size 0, each of dilate, morph_open,
  morph_close, normalize, resize, the five bgr2* conversions, blur_gaussian, blur_median,
  the four threshold_* functions and canny raises ValueError("Image is empty"), whatever
  the library is, so before any primitive is called. \<^verbatim>\<open>rotate_image\<close> has no such
  check: on \<^verbatim>\<open>None\<close> it raises AttributeError once the matrix is built, and an empty
  2-dimensional image is handed to \<^verbatim>\<open>cv.warpAffine\<close>.
\<close>

theorem empty_image_rejected:
  "(image' = None \<or> (\<exists>a. image' = Some a \<and> nd_size a = 0) \<longrightarrow>
      dilate cv image' kernel_size shp = Inl (ValueError ''Image is empty'')
      \<and> morph_open cv image' sz iterations = Inl (ValueError ''Image is empty'')
      \<and> morph_close cv image' sz iterations = Inl (ValueError ''Image is empty'')
      \<and> normalize_image cv image' min_v max_v = Inl (ValueError ''Image is empty'')
      \<and> resize cv image' factor = Inl (ValueError ''Image is empty'')
      \<and> bgr2gray cv image' = Inl (ValueError ''Image is empty'')
      \<and> bgr2hsv cv image' = Inl (ValueError ''Image is empty'')
      \<and> bgr2xyz cv image' = Inl (ValueError ''Image is empty'')
      \<and> bgr2hls cv image' = Inl (ValueError ''Image is empty'')
      \<and> bgr2luv cv image' = Inl (ValueError ''Image is empty'')
      \<and> blur_gaussian cv image' kernel_size sigma_x sigma_y = Inl (ValueError ''Image is empty'')
      \<and> blur_median cv image' kernel_size = Inl (ValueError ''Image is empty'')
      \<and> threshold_otsu cv image' max_value = Inl (ValueError ''Image is empty'')
      \<and> threshold_binary cv image' val max_value = Inl (ValueError ''Image is empty'')
      \<and> threshold_tozero cv image' val max_value = Inl (ValueError ''Image is empty'')
      \<and> threshold_otsu_tozero cv image' max_value = Inl (ValueError ''Image is empty'')
      \<and> canny cv image' low_threshold high_threshold = Inl (ValueError ''Image is empty''))
   \<and> rotate_image cv None center angle scale unit =
       (case cv_getRotationMatrix2D cv center
               (if unit = RADIANS then 180 / pi * angle else angle) scale of
          Inl e \<Rightarrow> Inl e | Inr m \<Rightarrow> Inl AttributeError)
   \<and> (nd_size b = 0 \<and> ndim b = 2 \<longrightarrow>
       rotate_image cv (Some b) center angle scale unit =
         (case cv_getRotationMatrix2D cv center
               (if unit = RADIANS then 180 / pi * angle else angle) scale of
            Inl e \<Rightarrow> Inl e | Inr m \<Rightarrow> cv_warpAffine cv b m (rev (shape b))))"
proof -
  have r0: "rotate_image cv None center angle scale unit =
       (case cv_getRotationMatrix2D cv center
               (if unit = RADIANS then 180 / pi * angle else angle) scale of
          Inl e \<Rightarrow> Inl e | Inr m \<Rightarrow> Inl AttributeError)"
    by (simp add: rotate_image_def split: sum.splits)
  have r2: "ndim b = 2 \<Longrightarrow>
       rotate_image cv (Some b) center angle scale unit =
         (case cv_getRotationMatrix2D cv center
               (if unit = RADIANS then 180 / pi * angle else angle) scale of
            Inl e \<Rightarrow> Inl e | Inr m \<Rightarrow> cv_warpAffine cv b m (rev (shape b)))"
    by (simp add: rotate_image_def split: sum.splits)
  have e: "image' = None \<or> (\<exists>a. image' = Some a \<and> nd_size a = 0) \<Longrightarrow>
      error_if_image_empty image' = Inl (ValueError ''Image is empty'')"
    by (rule error_if_image_empty_raises)
  show ?thesis
    using r0 r2
    by (simp add: e dilate_def morph_open_def morph_close_def normalize_image_def resize_def
          bgr2gray_def bgr2hsv_def bgr2xyz_def bgr2hls_def bgr2luv_def blur_gaussian_def
          blur_median_def threshold_otsu_def threshold_binary_def threshold_tozero_def
          threshold_otsu_tozero_def canny_def)
qed

theorem empty_image_rejected_witness:
  "nd_size empty_image = 0 \<and> ndim empty_image = 2
     \<and> dilate demo_cv (Some empty_image) 3 RECT = Inl (ValueError ''Image is empty'')
     \<and> canny demo_cv None 1 2 = Inl (ValueError ''Image is empty'')
     \<and> rotate_image demo_cv (Some empty_image) (0, 0) 90 1 DEGREES = Inr empty_image
     \<and> rotate_image demo_cv None (0, 0) 90 1 DEGREES = Inl AttributeError"
proof -
  have z: "nd_size empty_image = 0" "ndim empty_image = 2"
    by (simp_all add: nd_size_def ndim_def empty_image_def)
  have "dilate demo_cv (Some empty_image) 3 RECT = Inl (ValueError ''Image is empty'')"
    using z empty_image_rejected [of "Some empty_image" demo_cv 3 RECT] by simp
  moreover have
    "canny demo_cv None 1 2 = Inl (ValueError ''Image is empty'')"
    using empty_image_rejected [where image' = None and cv = demo_cv
        and low_threshold = 1 and high_threshold = 2]
    by simp
  moreover have "rotate_image demo_cv (Some empty_image) (0, 0) 90 1 DEGREES = Inr empty_image"
    using z empty_image_rejected [where cv = demo_cv and b = empty_image and center = "(0, 0)"
        and angle = 90 and scale = 1 and unit = DEGREES]
    by (simp add: demo_cv_def empty_image_def)
  moreover have
    "rotate_image demo_cv None (0, 0) 90 1 DEGREES = Inl AttributeError"
    using empty_image_rejected [where cv = demo_cv
        and center = "(0, 0)" and angle = 90 and scale = 1 and unit = DEGREES]
    by (simp add: demo_cv_def)
  ultimately show ?thesis using z by simp
qed

section \<open>Properties of the rotation\<close>

lemma nd_broadcast_same: "shape v = ts \<Longrightarrow> nd_broadcast_to v ts = Inr (data v)"
  by (simp add: nd_broadcast_to_def)

lemma chan_idx: "i < c \<Longrightarrow> (k * c + i) mod c = i" "i < c \<Longrightarrow> (k * c + i) div c = (k::nat)"
  by simp_all

lemma chan_bound: "k < n \<Longrightarrow> i < c \<Longrightarrow> k * c + i < n * (c::nat)"
proof -
  assume a: "k < n" "i < c"
  then have "k * c + i < k * c + c" by simp
  also have "\<dots> = (k + 1) * c" by simp
  also have "\<dots> \<le> n * c" using a by (intro mult_le_mono1) simp
  finally show ?thesis .
qed

lemma set_last_props:
  assumes "shape cp = [h, w, c]" "nd_wf cp" "i < c" "shape r = [h, w]" "nd_wf r"
  shows "\<exists>cp'. nd_set_last cp i r = Inr cp' \<and> shape cp' = [h, w, c] \<and> nd_wf cp'
           \<and> nd_get_last cp' i = Inr r
           \<and> (\<forall>j<c. j \<noteq> i \<longrightarrow> nd_get_last cp' j = nd_get_last cp j)"
proof -
  let ?cp' = "cp\<lparr>data := map (\<lambda>p. if p mod c = i then data r ! (p div c) else data cp ! p)
                                [0..<length (data cp)]\<rparr>"
  have s: "nd_set_last cp i r = Inr ?cp'"
    using assms by (simp add: nd_set_last_def nd_broadcast_same)
  have len: "length (data cp) = h * w * c" "length (data r) = h * w"
    using assms by (simp_all add: nd_wf_def)
  have g: "nd_get_last ?cp' i = Inr r"
    using assms len
    by (auto simp: nd_get_last_def chan_idx chan_bound intro!: ndarray.equality nth_equalityI)
  have o: "\<forall>j<c. j \<noteq> i \<longrightarrow> nd_get_last ?cp' j = nd_get_last cp j"
    using assms len
    by (auto simp: nd_get_last_def chan_idx chan_bound)
  show ?thesis using s g o assms by (simp add: nd_wf_def)
qed

lemma rotate_channels_ok:
  assumes "shape cp = [h, w, c]" "nd_wf cp" "distinct js"
    and "\<forall>i\<in>set js. i < c \<and> (\<exists>ch r. nd_get_last a i = Inr ch
            \<and> cv_warpAffine cv ch m shp = Inr r \<and> shape r = [h, w] \<and> nd_wf r)"
  shows "\<exists>out. rotate_channels cv a m shp cp js = Inr out \<and> shape out = [h, w, c] \<and> nd_wf out
           \<and> (\<forall>i\<in>set js. \<exists>ch r. nd_get_last a i = Inr ch
                  \<and> cv_warpAffine cv ch m shp = Inr r \<and> nd_get_last out i = Inr r)
           \<and> (\<forall>j<c. j \<notin> set js \<longrightarrow> nd_get_last out j = nd_get_last cp j)"
  using assms
proof (induction js arbitrary: cp)
  case Nil
  then show ?case by simp
next
  case (Cons i js)
  from Cons.prems obtain ch r where i: "i < c" "nd_get_last a i = Inr ch"
    "cv_warpAffine cv ch m shp = Inr r" "shape r = [h, w]" "nd_wf r"
    by auto
  from set_last_props [OF Cons.prems(1,2) i(1,4,5)] obtain cp' where
    cp': "nd_set_last cp i r = Inr cp'" "shape cp' = [h, w, c]" "nd_wf cp'"
      "nd_get_last cp' i = Inr r" "\<forall>j<c. j \<noteq> i \<longrightarrow> nd_get_last cp' j = nd_get_last cp j"
    by blast
  have d: "distinct js" "i \<notin> set js" using Cons.prems(3) by simp_all
  have rest: "\<forall>i\<in>set js. i < c \<and> (\<exists>ch r. nd_get_last a i = Inr ch
            \<and> cv_warpAffine cv ch m shp = Inr r \<and> shape r = [h, w] \<and> nd_wf r)"
    using Cons.prems(4) by simp
  from Cons.IH [OF cp'(2,3) d(1) rest] obtain out where
    out: "rotate_channels cv a m shp cp' js = Inr out" "shape out = [h, w, c]" "nd_wf out"
      "\<forall>i\<in>set js. \<exists>ch r. nd_get_last a i = Inr ch
          \<and> cv_warpAffine cv ch m shp = Inr r \<and> nd_get_last out i = Inr r"
      "\<forall>j<c. j \<notin> set js \<longrightarrow> nd_get_last out j = nd_get_last cp' j"
    by blast
  have run: "rotate_channels cv a m shp cp (i # js) = Inr out"
    using i cp'(1) out(1) by simp
  have at_i: "nd_get_last out i = Inr r"
    using out(5) i(1) d(2) cp'(4) by simp
  have others: "\<forall>j<c. j \<notin> set (i # js) \<longrightarrow> nd_get_last out j = nd_get_last cp j"
    using out(5) cp'(5) by simp
  show ?case
    using run out(2,3,4) at_i i(2,3) others by auto
qed

text \<open>
  C1. Once the library has built the rotation matrix \<open>m\<close> from the centre, the angle (in
  degrees, converted when the unit is RADIANS) and the scale: a 2-dimensional image is
  handed to \<^verbatim>\<open>cv.warpAffine\<close> whole, with \<open>m\<close> and the reversed shape; an image of
  neither 2 nor 3 dimensions raises ValueError; and for a 3-dimensional image of shape
  \<open>[h, w, c]\<close>, when \<^verbatim>\<open>cv.warpAffine\<close> returns for each channel an \<open>h\<close> by \<open>w\<close> array
  (its contract for the size \<open>(w, h)\<close>), the result has the shape of the image and its
  channel \<open>i\<close> is what \<^verbatim>\<open>cv.warpAffine\<close> returns for channel \<open>i\<close> of the image with the
  same \<open>m\<close> and the size \<open>(w, h)\<close>, for every \<open>i < c\<close>.
\<close>

theorem rotate_image_channels:
  assumes m: "cv_getRotationMatrix2D cv center
                (if unit = RADIANS then 180 / pi * angle else angle) scale = Inr m"
  shows
    "(ndim a = 2 \<longrightarrow>
        rotate_image cv (Some a) center angle scale unit = cv_warpAffine cv a m (rev (shape a)))
     \<and> (ndim a \<noteq> 2 \<and> ndim a \<noteq> 3 \<longrightarrow>
        rotate_image cv (Some a) center angle scale unit =
          Inl (ValueError ''Image must have 2 or 3 dimensions.''))
     \<and> (shape a = [h, w, c] \<and> nd_wf a
         \<and> (\<forall>i<c. \<exists>ch r. nd_get_last a i = Inr ch \<and> cv_warpAffine cv ch m [w, h] = Inr r
                \<and> shape r = [h, w] \<and> nd_wf r) \<longrightarrow>
        (\<exists>out. rotate_image cv (Some a) center angle scale unit = Inr out
           \<and> shape out = shape a
           \<and> (\<forall>i<c. \<exists>ch r. nd_get_last a i = Inr ch \<and> cv_warpAffine cv ch m [w, h] = Inr r
                  \<and> nd_get_last out i = Inr r)))"
proof (intro conjI impI)
  assume "ndim a = 2"
  then show "rotate_image cv (Some a) center angle scale unit
               = cv_warpAffine cv a m (rev (shape a))"
    using m by (simp add: rotate_image_def)
next
  assume "ndim a \<noteq> 2 \<and> ndim a \<noteq> 3"
  then show "rotate_image cv (Some a) center angle scale unit =
          Inl (ValueError ''Image must have 2 or 3 dimensions.'')"
    using m by (simp add: rotate_image_def)
next
  assume h: "shape a = [h, w, c] \<and> nd_wf a
         \<and> (\<forall>i<c. \<exists>ch r. nd_get_last a i = Inr ch \<and> cv_warpAffine cv ch m [w, h] = Inr r
                \<and> shape r = [h, w] \<and> nd_wf r)"
  have z: "shape (zeros_like a) = [h, w, c]" "nd_wf (zeros_like a)"
    using h by (simp_all add: zeros_like_def nd_wf_def)
  have pre: "\<forall>i\<in>set [0..<c]. i < c \<and> (\<exists>ch r. nd_get_last a i = Inr ch
            \<and> cv_warpAffine cv ch m [w, h] = Inr r \<and> shape r = [h, w] \<and> nd_wf r)"
    using h by simp
  from rotate_channels_ok [OF z distinct_upt pre] obtain out where
    out: "rotate_channels cv a m [w, h] (zeros_like a) [0..<c] = Inr out" "shape out = [h, w, c]"
      "\<forall>i\<in>set [0..<c]. \<exists>ch r. nd_get_last a i = Inr ch
          \<and> cv_warpAffine cv ch m [w, h] = Inr r \<and> nd_get_last out i = Inr r"
    by blast
  have "rotate_image cv (Some a) center angle scale unit = Inr out"
    using m h z(1) out(1) by (simp add: rotate_image_def ndim_def)
  then show "\<exists>out. rotate_image cv (Some a) center angle scale unit = Inr out
           \<and> shape out = shape a
           \<and> (\<forall>i<c. \<exists>ch r. nd_get_last a i = Inr ch \<and> cv_warpAffine cv ch m [w, h] = Inr r
                  \<and> nd_get_last out i = Inr r)"
    using out(2,3) h by simp
qed


lemma demo_bgr_channels:
  "nd_get_last demo_bgr 0 = Inr \<lparr>shape = [1, 2], data = [1, 3]\<rparr>"
  "nd_get_last demo_bgr 1 = Inr \<lparr>shape = [1, 2], data = [2, 4]\<rparr>"
  by (simp_all add: nd_get_last_def demo_bgr_def upt_rec [of 0] upt_rec [of 1]
        numeral_2_eq_2)

theorem rotate_image_channels_witness:
  "cv_getRotationMatrix2D demo_cv (0, 0) (if DEGREES = RADIANS then 180 / pi * 90 else 90) 1
      = Inr 90
   \<and> shape demo_bgr = [1, 2, 2] \<and> nd_wf demo_bgr
   \<and> (\<exists>out. rotate_image demo_cv (Some demo_bgr) (0, 0) 90 1 DEGREES = Inr out
         \<and> shape out = [1, 2, 2]
         \<and> nd_get_last out 0 = Inr \<lparr>shape = [1, 2], data = [1, 3]\<rparr>
         \<and> nd_get_last out 1 = Inr \<lparr>shape = [1, 2], data = [2, 4]\<rparr>)
   \<and> ndim demo_image = 2
   \<and> rotate_image demo_cv (Some demo_image) (0, 0) 90 1 DEGREES = Inr demo_image"
proof -
  let ?cv = demo_cv
  have m: "cv_getRotationMatrix2D ?cv (0, 0) (if DEGREES = RADIANS then 180 / pi * 90 else 90) 1
             = Inr 90"
    by (simp add: demo_cv_def)
  have wf: "shape demo_bgr = [1, 2, 2]" "nd_wf demo_bgr"
    by (simp_all add: demo_bgr_def nd_wf_def)
  have w0: "cv_warpAffine ?cv \<lparr>shape = [1, 2], data = [1, 3]\<rparr> 90 [2, 1]
              = Inr \<lparr>shape = [1, 2], data = [1, 3]\<rparr>"
    and w1: "cv_warpAffine ?cv \<lparr>shape = [1, 2], data = [2, 4]\<rparr> 90 [2, 1]
              = Inr \<lparr>shape = [1, 2], data = [2, 4]\<rparr>"
    by (simp_all add: demo_cv_def)
  have pre: "\<forall>i<2. \<exists>ch r. nd_get_last demo_bgr i = Inr ch
               \<and> cv_warpAffine ?cv ch 90 [2, 1] = Inr r \<and> shape r = [1, 2] \<and> nd_wf r"
    using demo_bgr_channels w0 w1 by (auto simp: less_2_cases_iff nd_wf_def)
  have d2: "ndim demo_image = 2" by (simp add: ndim_def demo_image_def)
  note spec3 = rotate_image_channels [OF m, of demo_bgr 1 2 2]
  note spec2 = rotate_image_channels [OF m, of demo_image]
  from spec3 wf pre obtain out where
    out: "rotate_image ?cv (Some demo_bgr) (0, 0) 90 1 DEGREES = Inr out" "shape out = [1, 2, 2]"
      "\<forall>i<2. \<exists>ch r. nd_get_last demo_bgr i = Inr ch \<and> cv_warpAffine ?cv ch 90 [2, 1] = Inr r
          \<and> nd_get_last out i = Inr r"
    by auto
  have "nd_get_last out 0 = Inr \<lparr>shape = [1, 2], data = [1, 3]\<rparr>"
    using out(3) [rule_format, of 0] demo_bgr_channels(1) w0 by auto
  moreover have "nd_get_last out 1 = Inr \<lparr>shape = [1, 2], data = [2, 4]\<rparr>"
    using out(3) [rule_format, of 1] demo_bgr_channels(2) w1 by auto
  moreover have "rotate_image ?cv (Some demo_image) (0, 0) 90 1 DEGREES = Inr demo_image"
    using spec2 d2 by (simp add: demo_cv_def demo_image_def)
  ultimately show ?thesis using m wf out(1,2) d2 by auto
qed

section \<open>Properties of contours\<close>

lemma nd_offset_bound:
  "nd_offset sh idx = Inr off \<Longrightarrow> off + prod_list (drop (length idx) sh) \<le> prod_list sh"
proof (induction sh idx arbitrary: off rule: nd_offset.induct)
  case (1 sh)
  then show ?case by simp
next
  case (2 i "is")
  then show ?case by simp
next
  case (3 d ds i "is")
  define j where "j = (if i < 0 then i + int d else i)"
  from "3.prems" have rng: "0 \<le> j" "j < int d"
    by (auto simp: j_def Let_def split: if_splits)
  from "3.prems" rng obtain off' where
    off': "nd_offset ds is = Inr off'" "off = nat j * prod_list ds + off'"
    by (auto simp: j_def Let_def split: if_splits sum.splits)
  have ih: "off' + prod_list (drop (length is) ds) \<le> prod_list ds"
    using "3.IH" [OF j_def _ off'(1)] rng by simp
  have "nat j + 1 \<le> d" using rng by linarith
  then have "(nat j + 1) * prod_list ds \<le> d * prod_list ds"
    by (rule mult_le_mono1)
  then show ?case using ih off'(2) by (simp add: algebra_simps)
qed

lemma take_drop_take:
  "p + q \<le> n \<Longrightarrow> take q (drop p (take n xs)) = take q (drop p xs)"
  by (simp add: drop_take min_def)

lemma nd_getitem_chain:
  "nd_getitem a (i # is) =
     (case nd_getitem a [i] of Inl e \<Rightarrow> Inl e | Inr r \<Rightarrow> nd_getitem r is)"
proof (cases "shape a")
  case Nil
  then show ?thesis by (simp add: nd_getitem_def)
next
  case (Cons d ds)
  define j where "j = (if i < 0 then i + int d else i)"
  show ?thesis
  proof (cases "0 \<le> j \<and> j < int d")
    case False
    then show ?thesis using Cons by (auto simp: nd_getitem_def j_def Let_def)
  next
    case True
    show ?thesis
    proof (cases "nd_offset ds is")
      case (Inl e)
      then show ?thesis using Cons True by (simp add: nd_getitem_def j_def Let_def)
    next
      case (Inr off')
      from nd_offset_bound [OF Inr]
      have b: "off' + prod_list (drop (length is) ds) \<le> prod_list ds" .
      show ?thesis using Cons True Inr b
        by (simp add: nd_getitem_def j_def Let_def take_drop_take add.commute)
    qed
  qed
qed

lemma pts_get_scalar:
  assumes "shape a = [n, 1, 2]" "nd_wf a" "i < n" "j < 2"
  shows "nd_getitem a [int i, 0, int j] = Inr \<lparr>shape = [], data = [data a ! (2 * i + j)]\<rparr>"
proof -
  have len: "length (data a) = 2 * n" using assms by (simp add: nd_wf_def)
  have lt: "2 * i + j < length (data a)" using assms len by simp
  have "take 1 (drop (2 * i + j) (data a)) = [data a ! (2 * i + j)]"
    using lt by (simp add: take_Suc_conv_app_nth)
  then show ?thesis using assms by (simp add: nd_getitem_def mult.commute)
qed

lemma pts_set_scalar:
  assumes "shape a = [n, 1, 2]" "nd_wf a" "i < n" "j < 2"
  shows "nd_setitem a [int i, 0, int j] \<lparr>shape = [], data = [x]\<rparr>
           = Inr (a\<lparr>data := (data a)[2 * i + j := x]\<rparr>)"
proof -
  have len: "length (data a) = 2 * n" using assms by (simp add: nd_wf_def)
  have lt: "2 * i + j < length (data a)" using assms len by simp
  have "take (2 * i + j) (data a) @ [x] @ drop (2 * i + j + 1) (data a)
          = (data a)[2 * i + j := x]"
    using lt by (simp add: upd_conv_take_nth_drop)
  then show ?thesis using assms
    by (simp add: nd_setitem_def nd_broadcast_same mult.commute)
qed

lemma pts_get_point:
  assumes "shape a = [n, 1, 2]" "nd_wf a" "i < n"
  shows "nd_getitem a [int i, 0]
           = Inr \<lparr>shape = [2], data = [data a ! (2 * i), data a ! (2 * i + 1)]\<rparr>"
proof -
  have len: "length (data a) = 2 * n" using assms by (simp add: nd_wf_def)
  have lt: "2 * i + 1 < length (data a)" using assms len by simp
  have "take 2 (drop (2 * i) (data a)) = [data a ! (2 * i), data a ! (2 * i + 1)]"
    using lt by (simp add: numeral_2_eq_2 take_Suc_conv_app_nth)
  then show ?thesis using assms by (simp add: nd_getitem_def mult.commute)
qed


lemma write_points_simps:
  "contours (write_points h c a) = contours h"
  "arrays (write_points h c a) (points (contours h ! c)) = a"
  "q \<noteq> points (contours h ! c) \<Longrightarrow> arrays (write_points h c a) q = arrays h q"
  "write_points (write_points h c a) c b = write_points h c b"
  by (simp_all add: write_points_def)

lemma scale_points_step:
  fixes h :: "('a::minus) heap"
  assumes "shape (arrays h (points (contours h ! c))) = [n, 1, 2]"
    and "nd_wf (arrays h (points (contours h ! c)))" and "i < n"
  shows "scale_points h c rect (i # js) =
           scale_points
             (write_points h c
                (arrays h (points (contours h ! c))
                   \<lparr>data := (data (arrays h (points (contours h ! c))))
                      [2 * i := data (arrays h (points (contours h ! c))) ! (2 * i) - rect_x rect,
                       2 * i + 1 :=
                         data (arrays h (points (contours h ! c))) ! (2 * i + 1) - rect_y rect]\<rparr>))
             c rect js"
proof -
  let ?a = "arrays h (points (contours h ! c))"
  let ?a1 = "?a\<lparr>data := (data ?a)[2 * i := data ?a ! (2 * i) - rect_x rect]\<rparr>"
  let ?h1 = "write_points h c ?a1"
  have g0: "Contour_getitem h c (KTuple [int i, 0]) = Inr \<lparr>shape = [], data = [data ?a ! (2 * i)]\<rparr>"
    using pts_get_scalar [OF assms(1,2,3), of 0] by (simp add: Contour_getitem_def)
  have s0: "Contour_setitem h c (KTuple [int i, 0])
              (nd_sub \<lparr>shape = [], data = [data ?a ! (2 * i)]\<rparr> (rect_x rect)) = (Inr (), ?h1)"
    using pts_set_scalar [OF assms(1,2,3), of 0 "data ?a ! (2 * i) - rect_x rect"]
    by (simp add: Contour_setitem_def nd_sub_def)
  have a1: "arrays ?h1 (points (contours ?h1 ! c)) = ?a1"
    by (simp add: write_points_simps)
  have sh1: "shape ?a1 = [n, 1, 2]" "nd_wf ?a1"
    using assms by (simp_all add: nd_wf_def)
  have len: "length (data ?a) = 2 * n" using assms by (simp add: nd_wf_def)
  have g1: "Contour_getitem ?h1 c (KTuple [int i, 1])
              = Inr \<lparr>shape = [], data = [data ?a ! (2 * i + 1)]\<rparr>"
    using pts_get_scalar [OF sh1 assms(3), of 1]
    by (simp add: Contour_getitem_def a1)
  have s1: "Contour_setitem ?h1 c (KTuple [int i, 1])
              (nd_sub \<lparr>shape = [], data = [data ?a ! (2 * i + 1)]\<rparr> (rect_y rect))
            = (Inr (), write_points h c
                (?a\<lparr>data := (data ?a)[2 * i := data ?a ! (2 * i) - rect_x rect,
                       2 * i + 1 := data ?a ! (2 * i + 1) - rect_y rect]\<rparr>))"
    using pts_set_scalar [OF sh1 assms(3), of 1 "data ?a ! (2 * i + 1) - rect_y rect"]
    by (simp add: Contour_setitem_def nd_sub_def a1 write_points_simps)
  show ?thesis
    by (simp only: scale_points.simps g0 s0 g1 s1 sum.case prod.case)
qed

lemma scale_points_ok:
  fixes h :: "('a::minus) heap"
  assumes "shape (arrays h (points (contours h ! c))) = [n, 1, 2]"
    and "nd_wf (arrays h (points (contours h ! c)))"
    and "distinct js" and "\<forall>i\<in>set js. i < n"
  shows "\<exists>h'. scale_points h c rect js = (Inr c, h')
           \<and> contours h' = contours h
           \<and> (\<forall>q. q \<noteq> points (contours h ! c) \<longrightarrow> arrays h' q = arrays h q)
           \<and> shape (arrays h' (points (contours h ! c))) = [n, 1, 2]
           \<and> nd_wf (arrays h' (points (contours h ! c)))
           \<and> (\<forall>k<n. data (arrays h' (points (contours h ! c))) ! (2 * k) =
                   (if k \<in> set js then data (arrays h (points (contours h ! c))) ! (2 * k) - rect_x rect
                    else data (arrays h (points (contours h ! c))) ! (2 * k))
                \<and> data (arrays h' (points (contours h ! c))) ! (2 * k + 1) =
                   (if k \<in> set js
                    then data (arrays h (points (contours h ! c))) ! (2 * k + 1) - rect_y rect
                    else data (arrays h (points (contours h ! c))) ! (2 * k + 1)))"
  using assms
proof (induction js arbitrary: h)
  case Nil
  then show ?case by simp
next
  case (Cons i js)
  let ?p = "points (contours h ! c)"
  let ?a = "arrays h ?p"
  let ?a2 = "?a\<lparr>data := (data ?a)[2 * i := data ?a ! (2 * i) - rect_x rect,
                       2 * i + 1 := data ?a ! (2 * i + 1) - rect_y rect]\<rparr>"
  let ?h2 = "write_points h c ?a2"
  have i: "i < n" "i \<notin> set js" "distinct js" "\<forall>k\<in>set js. k < n"
    using Cons.prems by simp_all
  have step: "scale_points h c rect (i # js) = scale_points ?h2 c rect js"
    by (rule scale_points_step [OF Cons.prems(1,2) i(1)])
  have p2: "points (contours ?h2 ! c) = ?p" by (simp add: write_points_simps)
  have a2: "arrays ?h2 ?p = ?a2" by (simp add: write_points_simps)
  have len: "length (data ?a) = 2 * n" using Cons.prems by (simp add: nd_wf_def)
  have pre: "shape (arrays ?h2 (points (contours ?h2 ! c))) = [n, 1, 2]"
    "nd_wf (arrays ?h2 (points (contours ?h2 ! c)))"
    using Cons.prems(1,2) by (simp_all add: write_points_simps nd_wf_def)
  from Cons.IH [OF pre i(3,4)] obtain h' where
    h': "scale_points ?h2 c rect js = (Inr c, h')" "contours h' = contours ?h2"
      "\<forall>q. q \<noteq> ?p \<longrightarrow> arrays h' q = arrays ?h2 q"
      "shape (arrays h' ?p) = [n, 1, 2]" "nd_wf (arrays h' ?p)"
      "\<forall>k<n. data (arrays h' ?p) ! (2 * k) =
                   (if k \<in> set js then data ?a2 ! (2 * k) - rect_x rect else data ?a2 ! (2 * k))
                \<and> data (arrays h' ?p) ! (2 * k + 1) =
                   (if k \<in> set js then data ?a2 ! (2 * k + 1) - rect_y rect
                    else data ?a2 ! (2 * k + 1))"
    unfolding p2 a2 by blast
  define d where "d = data ?a"
  define d2 where "d2 = data ?a2"
  define d' where "d' = data (arrays h' ?p)"
  have upd: "d2 = d[2 * i := d ! (2 * i) - rect_x rect, 2 * i + 1 := d ! (2 * i + 1) - rect_y rect]"
    by (simp add: d2_def d_def)
  have ld: "length d = 2 * n" using len by (simp add: d_def)
  have ev: "\<And>k. k < n \<Longrightarrow> d2 ! (2 * k) = (if k = i then d ! (2 * k) - rect_x rect else d ! (2 * k))"
  proof -
    fix k assume k: "k < n"
    have "2 * k < length d" using k ld by simp
    moreover have "2 * k \<noteq> 2 * i + 1" by presburger
    ultimately show "d2 ! (2 * k) = (if k = i then d ! (2 * k) - rect_x rect else d ! (2 * k))"
      unfolding upd by (simp add: nth_list_update)
  qed
  have od: "\<And>k. k < n \<Longrightarrow>
              d2 ! (2 * k + 1) = (if k = i then d ! (2 * k + 1) - rect_y rect else d ! (2 * k + 1))"
  proof -
    fix k assume k: "k < n"
    have "2 * k + 1 < length d" using k ld by simp
    moreover have "2 * k + 1 \<noteq> 2 * i" by presburger
    ultimately show
      "d2 ! (2 * k + 1) = (if k = i then d ! (2 * k + 1) - rect_y rect else d ! (2 * k + 1))"
      unfolding upd by (simp add: nth_list_update)
  qed
  have ih: "\<forall>k<n. d' ! (2 * k) = (if k \<in> set js then d2 ! (2 * k) - rect_x rect else d2 ! (2 * k))
                \<and> d' ! (2 * k + 1) =
                   (if k \<in> set js then d2 ! (2 * k + 1) - rect_y rect else d2 ! (2 * k + 1))"
    using h'(6) unfolding d'_def d2_def .
  have "\<forall>k<n. d' ! (2 * k) = (if k \<in> set (i # js) then d ! (2 * k) - rect_x rect else d ! (2 * k))
                \<and> d' ! (2 * k + 1) =
                   (if k \<in> set (i # js) then d ! (2 * k + 1) - rect_y rect else d ! (2 * k + 1))"
  proof (intro allI impI)
    fix k assume k: "k < n"
    show "d' ! (2 * k) = (if k \<in> set (i # js) then d ! (2 * k) - rect_x rect else d ! (2 * k))
                \<and> d' ! (2 * k + 1) =
                   (if k \<in> set (i # js) then d ! (2 * k + 1) - rect_y rect else d ! (2 * k + 1))"
      using ih [rule_format, OF k] ev [OF k] od [OF k] i(2) by auto
  qed
  then have pts: "\<forall>k<n. data (arrays h' ?p) ! (2 * k) =
                   (if k \<in> set (i # js) then data ?a ! (2 * k) - rect_x rect
                    else data ?a ! (2 * k))
                \<and> data (arrays h' ?p) ! (2 * k + 1) =
                   (if k \<in> set (i # js) then data ?a ! (2 * k + 1) - rect_y rect
                    else data ?a ! (2 * k + 1))"
    unfolding d'_def d_def .
  have fr: "\<forall>q. q \<noteq> ?p \<longrightarrow> arrays h' q = arrays h q"
    using h'(3) by (simp add: write_points_simps)
  have co: "contours h' = contours h" using h'(2) by (simp add: write_points_simps)
  have run: "scale_points h c rect (i # js) = (Inr c, h')"
    using step h'(1) by simp
  show ?case
    using run h'(4,5) co fr pts by blast
qed

lemma pts_set_point:
  assumes "shape a = [n, 1, 2]" "nd_wf a" "- int n \<le> i" "i < int n" "shape v = [2]" "nd_wf v"
  shows "\<exists>a'. nd_setitem a [i, 0] v = Inr a' \<and> shape a' = [n, 1, 2] \<and> nd_wf a'
           \<and> nd_getitem a' [i, 0] = Inr v"
proof -
  define k where "k = nat (if i < 0 then i + int n else i)"
  have k: "k < n" using assms(3,4) by (auto simp: k_def)
  have off: "nd_offset [n, 1, 2] [i, 0] = Inr (2 * k)"
    using assms(3,4) by (auto simp: k_def Let_def)
  have len: "length (data a) = 2 * n" "length (data v) = 2"
    using assms by (simp_all add: nd_wf_def)
  let ?d = "take (2 * k) (data a) @ data v @ drop (2 * k + 2) (data a)"
  have wr: "nd_setitem a [i, 0] v = Inr (a\<lparr>data := ?d\<rparr>)"
    using assms(1,5) off len by (simp add: nd_setitem_def nd_broadcast_same)
  have lk: "length (take (2 * k) (data a)) = 2 * k" using k len by simp
  have rd: "take 2 (drop (2 * k) ?d) = data v"
    using lk len by simp
  have ld: "length ?d = 2 * n" using k len by simp
  have get: "nd_getitem (a\<lparr>data := ?d\<rparr>) [i, 0] = Inr v"
    using assms(1,5) off rd by (simp add: nd_getitem_def)
  show ?thesis using wr get assms(1) ld by (simp add: nd_wf_def)
qed

lemma Contour_getitem_point:
  assumes "shape (arrays h (points (contours h ! c))) = [n, 1, 2]"
    and "nd_wf (arrays h (points (contours h ! c)))" and "i < n"
  shows "Contour_getitem h c (KInt (int i)) =
           Inr \<lparr>shape = [2], data = [data (arrays h (points (contours h ! c))) ! (2 * i),
                                     data (arrays h (points (contours h ! c))) ! (2 * i + 1)]\<rparr>"
  using pts_get_point [OF assms] by (simp add: Contour_getitem_def)

lemma demo_heap_facts:
  "shape (arrays demo_heap (points (contours demo_heap ! 0))) = [2, 1, 2]"
  "nd_wf (arrays demo_heap (points (contours demo_heap ! 0)))"
  "moment (contours demo_heap ! 0) ''m00'' \<noteq> None"
  "0 < length (contours demo_heap)"
  by (simp_all add: demo_heap_def demo_points_def nd_wf_def)

lemma demo_heap_points:
  "Contour_getitem demo_heap 0 (KInt 0) = Inr \<lparr>shape = [2], data = [10, 20]\<rparr>"
  "Contour_getitem demo_heap 0 (KInt 1) = Inr \<lparr>shape = [2], data = [30, 40]\<rparr>"
  by (simp_all add: Contour_getitem_def nd_getitem_def demo_heap_def demo_points_def
        numeral_2_eq_2)

text \<open>
  C6. A contour made by \<^verbatim>\<open>Contour(points, moment)\<close> with a moment dictionary refers to
  the array it was given and keeps the dictionary; \<^verbatim>\<open>c.area\<close> is \<^verbatim>\<open>moment["m00"]\<close>;
  \<^verbatim>\<open>len(c)\<close> is \<^verbatim>\<open>len(points)\<close>; \<^verbatim>\<open>c[i]\<close> is \<^verbatim>\<open>points[i][0]\<close> for every integer
  \<open>i\<close> (both raise IndexError out of range); \<^verbatim>\<open>c[(i, j)]\<close> is \<^verbatim>\<open>points[i][0][j]\<close>; a
  key of more than two elements raises ValueError; and with \<^verbatim>\<open>moment=None\<close> the
  dictionary is first computed from the points by \<^verbatim>\<open>cv.moments\<close>.
\<close>

theorem contour_positional_wrapper:
  assumes "Contour_init cv h pts (Some mo) = (Inr c, h')"
  shows "arrays h' = arrays h
     \<and> points (contours h' ! c) = pts
     \<and> moment (contours h' ! c) = mo
     \<and> mo ''m00'' = Some (area (contours h' ! c))
     \<and> Contour_len h' c = nd_len (arrays h pts)
     \<and> Contour_getitem h' c (KInt i) =
         (case nd_index (arrays h pts) i of Inl e \<Rightarrow> Inl e | Inr row \<Rightarrow> nd_index row 0)
     \<and> Contour_getitem h' c (KTuple [i, j]) =
         (case nd_index (arrays h pts) i of
            Inl e \<Rightarrow> Inl e
          | Inr row \<Rightarrow> (case nd_index row 0 of Inl e \<Rightarrow> Inl e | Inr p \<Rightarrow> nd_index p j))
     \<and> (2 < length ks \<longrightarrow>
         Contour_getitem h' c (KTuple ks) =
           Inl (ValueError (''Too many indices: '' @ str_nat (length ks))))
     \<and> Contour_init cv h pts None =
         (case cv_moments cv (arrays h pts) of
            Inl e \<Rightarrow> (Inl e, h)
          | Inr m \<Rightarrow> Contour_init cv h pts (Some m))"
proof -
  from assms obtain ar where ar: "mo ''m00'' = Some ar"
    and c: "c = length (contours h)"
    and h': "h' = h\<lparr>contours := contours h @ [\<lparr>points = pts, moment = mo, area = ar\<rparr>]\<rparr>"
    by (auto simp: Contour_init_def split: option.splits)
  have obj: "contours h' ! c = \<lparr>points = pts, moment = mo, area = ar\<rparr>"
    by (simp add: c h')
  have arr: "arrays h' = arrays h" by (simp add: h')
  have g1: "Contour_getitem h' c (KInt i) =
         (case nd_index (arrays h pts) i of Inl e \<Rightarrow> Inl e | Inr row \<Rightarrow> nd_index row 0)"
    by (simp add: Contour_getitem_def obj arr nd_index_def nd_getitem_chain [of _ i "[0]"]
          split: sum.splits)
  have g2: "Contour_getitem h' c (KTuple [i, j]) =
         (case nd_index (arrays h pts) i of
            Inl e \<Rightarrow> Inl e
          | Inr row \<Rightarrow> (case nd_index row 0 of Inl e \<Rightarrow> Inl e | Inr p \<Rightarrow> nd_index p j))"
    by (simp add: Contour_getitem_def obj arr nd_index_def nd_getitem_chain [of _ i "[0, j]"]
          nd_getitem_chain [of _ 0 "[j]"] split: sum.splits)
  have g3: "2 < length ks \<longrightarrow>
         Contour_getitem h' c (KTuple ks) =
           Inl (ValueError (''Too many indices: '' @ str_nat (length ks)))"
    by (simp add: Contour_getitem_def)
  have n: "Contour_init cv h pts None =
         (case cv_moments cv (arrays h pts) of
            Inl e \<Rightarrow> (Inl e, h)
          | Inr m \<Rightarrow> Contour_init cv h pts (Some m))"
    by (simp add: Contour_init_def split: sum.splits)
  have l: "Contour_len h' c = nd_len (arrays h pts)"
    by (simp add: Contour_len_def obj arr)
  show ?thesis using arr obj ar l g1 g2 g3 n by simp
qed

theorem contour_positional_wrapper_witness:
  "Contour_init demo_cv fresh_heap 0 (Some [''m00'' \<mapsto> 4])
     = (Inr 0, fresh_heap\<lparr>contours := [\<lparr>points = 0, moment = [''m00'' \<mapsto> 4], area = 4\<rparr>]\<rparr>)
   \<and> Contour_len (fresh_heap\<lparr>contours := [\<lparr>points = 0, moment = [''m00'' \<mapsto> 4], area = 4\<rparr>]\<rparr>) 0
       = Inr 2
   \<and> Contour_getitem
       (fresh_heap\<lparr>contours := [\<lparr>points = 0, moment = [''m00'' \<mapsto> 4], area = 4\<rparr>]\<rparr>) 0 (KInt 1)
       = Inr \<lparr>shape = [2], data = [30, 40]\<rparr>
   \<and> Contour_getitem
       (fresh_heap\<lparr>contours := [\<lparr>points = 0, moment = [''m00'' \<mapsto> 4], area = 4\<rparr>]\<rparr>) 0
       (KTuple [1, 1])
       = Inr \<lparr>shape = [], data = [40]\<rparr>
   \<and> Contour_getitem
       (fresh_heap\<lparr>contours := [\<lparr>points = 0, moment = [''m00'' \<mapsto> 4], area = 4\<rparr>]\<rparr>) 0
       (KTuple [1, 1, 0])
       = Inl (ValueError ''Too many indices: 3'')"
proof -
  let ?h' = "fresh_heap\<lparr>contours := [\<lparr>points = 0, moment = [''m00'' \<mapsto> 4], area = 4\<rparr>]\<rparr>"
  have init: "Contour_init demo_cv fresh_heap 0 (Some [''m00'' \<mapsto> 4]) = (Inr 0, ?h')"
    by (simp add: Contour_init_def fresh_heap_def demo_heap_def)
  have a0: "arrays fresh_heap 0 = demo_points"
    by (simp add: fresh_heap_def demo_heap_def)
  have i1: "nd_index demo_points 1 = Inr \<lparr>shape = [1, 2], data = [30, 40]\<rparr>"
    by (simp add: nd_index_def nd_getitem_def demo_points_def numeral_2_eq_2)
  have i2: "nd_index \<lparr>shape = [1, 2], data = [30, 40::int]\<rparr> 0 = Inr \<lparr>shape = [2], data = [30, 40]\<rparr>"
    by (simp add: nd_index_def nd_getitem_def numeral_2_eq_2)
  have i3: "nd_index \<lparr>shape = [2], data = [30, 40::int]\<rparr> 1 = Inr \<lparr>shape = [], data = [40]\<rparr>"
    by (simp add: nd_index_def nd_getitem_def)
  have l: "nd_len demo_points = Inr 2" by (simp add: nd_len_def demo_points_def)
  note w = contour_positional_wrapper [OF init, of 1 1 "[1, 1, 0]"]
  have "Contour_len ?h' 0 = Inr 2" using w l a0 by simp
  moreover have "Contour_getitem ?h' 0 (KInt 1) = Inr \<lparr>shape = [2], data = [30, 40]\<rparr>"
    using w a0 i1 i2 by simp
  moreover have "Contour_getitem ?h' 0 (KTuple [1, 1]) = Inr \<lparr>shape = [], data = [40]\<rparr>"
    using w a0 i1 i2 i3 by simp
  moreover have "Contour_getitem ?h' 0 (KTuple [1, 1, 0]) = Inl (ValueError ''Too many indices: 3'')"
    using w by simp
  ultimately show ?thesis using init by simp
qed

text \<open>
  C10, as stated: every assignment \<^verbatim>\<open>c[i] = value\<close> with an integer key writes and then
  raises TypeError. With an index out of range the write itself raises IndexError, and
  nothing is written.
\<close>

theorem setitem_int_key_counterexample:
  "Contour_setitem demo_heap 0 (KInt 5) \<lparr>shape = [2], data = [7, 8]\<rparr> = (Inl IndexError, demo_heap)"
  by (simp add: Contour_setitem_def nd_setitem_def demo_heap_def demo_points_def)

text \<open>
  C10, amended. An assignment \<^verbatim>\<open>c[i] = value\<close> with an integer key never completes
  normally. When the write \<^verbatim>\<open>points[i, 0] = value\<close> succeeds, it takes effect and
  TypeError is raised afterwards, since the integer branch does not return before
  \<^verbatim>\<open>len(key)\<close>; this is so whenever the points array has shape \<open>(n, 1, 2)\<close>,
  \<open>-n \<le> i < n\<close> and the value is an array of two elements, and then \<^verbatim>\<open>c[i]\<close> reads
  back the value and no other array changes. When the write raises (IndexError, or
  ValueError for a value that does not broadcast), that exception is raised and the store
  is unchanged.
\<close>

theorem setitem_int_key_raises:
  "(\<exists>e h'. Contour_setitem h c (KInt i) v = (Inl e, h'))
   \<and> (\<forall>a. nd_setitem (arrays h (points (contours h ! c))) [i, 0] v = Inr a \<longrightarrow>
         Contour_setitem h c (KInt i) v = (Inl TypeError, write_points h c a))
   \<and> (\<forall>e. nd_setitem (arrays h (points (contours h ! c))) [i, 0] v = Inl e \<longrightarrow>
         Contour_setitem h c (KInt i) v = (Inl e, h))
   \<and> (shape (arrays h (points (contours h ! c))) = [n, 1, 2]
        \<and> nd_wf (arrays h (points (contours h ! c)))
        \<and> - int n \<le> i \<and> i < int n \<and> shape v = [2] \<and> nd_wf v \<longrightarrow>
       (\<exists>h'. Contour_setitem h c (KInt i) v = (Inl TypeError, h')
          \<and> Contour_getitem h' c (KInt i) = Inr v
          \<and> contours h' = contours h
          \<and> (\<forall>q. q \<noteq> points (contours h ! c) \<longrightarrow> arrays h' q = arrays h q)))"
proof (intro conjI allI impI)
  show "\<exists>e h'. Contour_setitem h c (KInt i) v = (Inl e, h')"
    by (cases "nd_setitem (arrays h (points (contours h ! c))) [i, 0] v")
      (simp_all add: Contour_setitem_def)
next
  fix a assume "nd_setitem (arrays h (points (contours h ! c))) [i, 0] v = Inr a"
  then show "Contour_setitem h c (KInt i) v = (Inl TypeError, write_points h c a)"
    by (simp add: Contour_setitem_def)
next
  fix e assume "nd_setitem (arrays h (points (contours h ! c))) [i, 0] v = Inl e"
  then show "Contour_setitem h c (KInt i) v = (Inl e, h)"
    by (simp add: Contour_setitem_def)
next
  let ?p = "points (contours h ! c)"
  assume a: "shape (arrays h ?p) = [n, 1, 2] \<and> nd_wf (arrays h ?p)
        \<and> - int n \<le> i \<and> i < int n \<and> shape v = [2] \<and> nd_wf v"
  then obtain a' where
    a': "nd_setitem (arrays h ?p) [i, 0] v = Inr a'" "nd_getitem a' [i, 0] = Inr v"
    using pts_set_point [of "arrays h ?p" n i v] by blast
  have run: "Contour_setitem h c (KInt i) v = (Inl TypeError, write_points h c a')"
    using a'(1) by (simp add: Contour_setitem_def)
  have rb: "Contour_getitem (write_points h c a') c (KInt i) = Inr v"
    using a'(2) by (simp add: Contour_getitem_def write_points_simps)
  have fr: "\<forall>q. q \<noteq> ?p \<longrightarrow> arrays (write_points h c a') q = arrays h q"
    by (simp add: write_points_simps)
  show "\<exists>h'. Contour_setitem h c (KInt i) v = (Inl TypeError, h')
          \<and> Contour_getitem h' c (KInt i) = Inr v
          \<and> contours h' = contours h
          \<and> (\<forall>q. q \<noteq> ?p \<longrightarrow> arrays h' q = arrays h q)"
    using run rb fr write_points_simps(1) [of h c a'] by blast
qed

theorem setitem_int_key_raises_witness:
  "shape (arrays demo_heap (points (contours demo_heap ! 0))) = [2, 1, 2]
   \<and> nd_wf (arrays demo_heap (points (contours demo_heap ! 0)))
   \<and> - int 2 \<le> 1 \<and> (1::int) < int 2
   \<and> shape \<lparr>shape = [2], data = [7, 8::int]\<rparr> = [2] \<and> nd_wf \<lparr>shape = [2], data = [7, 8::int]\<rparr>
   \<and> (\<exists>h'. Contour_setitem demo_heap 0 (KInt 1) \<lparr>shape = [2], data = [7, 8]\<rparr> = (Inl TypeError, h')
         \<and> Contour_getitem h' 0 (KInt 1) = Inr \<lparr>shape = [2], data = [7, 8]\<rparr>
         \<and> arrays h' 1 = arrays demo_heap 1)
   \<and> Contour_setitem demo_heap 0 (KInt 2) \<lparr>shape = [2], data = [7, 8]\<rparr> = (Inl IndexError, demo_heap)"
proof -
  let ?v = "\<lparr>shape = [2], data = [7, 8::int]\<rparr>"
  have v: "shape ?v = [2]" "nd_wf ?v" by (simp_all add: nd_wf_def)
  have r: "- int 2 \<le> 1" "(1::int) < int 2" by simp_all
  note w = setitem_int_key_raises [of demo_heap 0 1 ?v 2]
  from w demo_heap_facts(1,2) r v obtain h' where
    h': "Contour_setitem demo_heap 0 (KInt 1) ?v = (Inl TypeError, h')"
      "Contour_getitem h' 0 (KInt 1) = Inr ?v"
      "\<forall>q. q \<noteq> points (contours demo_heap ! 0) \<longrightarrow> arrays h' q = arrays demo_heap q"
    by blast
  have o: "arrays h' 1 = arrays demo_heap 1"
    using h'(3) [rule_format, of 1] by (simp add: demo_heap_def)
  have bad: "nd_setitem (arrays demo_heap (points (contours demo_heap ! 0))) [2, 0] ?v
               = Inl IndexError"
    by (simp add: nd_setitem_def demo_heap_def demo_points_def)
  have "Contour_setitem demo_heap 0 (KInt 2) ?v = (Inl IndexError, demo_heap)"
    using setitem_int_key_raises [of demo_heap 0 2 ?v] bad by blast
  then show ?thesis using h'(1,2) o demo_heap_facts(1,2) r v by blast
qed

lemma scale_contour_to_rect_ok:
  fixes h :: "('a::minus) heap"
  assumes "shape (arrays h (points (contours h ! c))) = [n, 1, 2]"
    and "nd_wf (arrays h (points (contours h ! c)))"
    and "moment (contours h ! c) ''m00'' = Some ar"
  shows "\<exists>h'. scale_contour_to_rect cv h c rect = (Inr (length (contours h)), h')
           \<and> contours h' = contours h @ [\<lparr>points = points (contours h ! c),
                                          moment = moment (contours h ! c), area = ar\<rparr>]
           \<and> (\<forall>q. q \<noteq> points (contours h ! c) \<longrightarrow> arrays h' q = arrays h q)
           \<and> shape (arrays h' (points (contours h ! c))) = [n, 1, 2]
           \<and> nd_wf (arrays h' (points (contours h ! c)))
           \<and> (\<forall>k<n. data (arrays h' (points (contours h ! c))) ! (2 * k) =
                     data (arrays h (points (contours h ! c))) ! (2 * k) - rect_x rect
                \<and> data (arrays h' (points (contours h ! c))) ! (2 * k + 1) =
                     data (arrays h (points (contours h ! c))) ! (2 * k + 1) - rect_y rect)"
proof -
  let ?p = "points (contours h ! c)"
  let ?new = "\<lparr>points = ?p, moment = moment (contours h ! c), area = ar\<rparr>"
  let ?c' = "length (contours h)"
  let ?h0 = "h\<lparr>contours := contours h @ [?new]\<rparr>"
  have init: "Contour_init cv h ?p (Some (moment (contours h ! c))) = (Inr ?c', ?h0)"
    using assms(3) by (simp add: Contour_init_def)
  have p0: "points (contours ?h0 ! ?c') = ?p" by simp
  have a0: "arrays ?h0 = arrays h" by simp
  have pre: "shape (arrays ?h0 (points (contours ?h0 ! ?c'))) = [n, 1, 2]"
    "nd_wf (arrays ?h0 (points (contours ?h0 ! ?c')))"
    using assms(1,2) by simp_all
  have len: "Contour_len ?h0 ?c' = Inr n"
    using assms(1) by (simp add: Contour_len_def nd_len_def)
  have idx: "distinct [0..<n]" "\<forall>i\<in>set [0..<n]. i < n" by simp_all
  from scale_points_ok [OF pre idx, of rect] obtain h' where
    h': "scale_points ?h0 ?c' rect [0..<n] = (Inr ?c', h')" "contours h' = contours ?h0"
      "\<forall>q. q \<noteq> ?p \<longrightarrow> arrays h' q = arrays ?h0 q"
      "shape (arrays h' ?p) = [n, 1, 2]" "nd_wf (arrays h' ?p)"
      "\<forall>k<n. data (arrays h' ?p) ! (2 * k) =
                   (if k \<in> set [0..<n] then data (arrays ?h0 ?p) ! (2 * k) - rect_x rect
                    else data (arrays ?h0 ?p) ! (2 * k))
                \<and> data (arrays h' ?p) ! (2 * k + 1) =
                   (if k \<in> set [0..<n] then data (arrays ?h0 ?p) ! (2 * k + 1) - rect_y rect
                    else data (arrays ?h0 ?p) ! (2 * k + 1))"
    unfolding p0 by blast
  have run: "scale_contour_to_rect cv h c rect = (Inr ?c', h')"
    by (simp only: scale_contour_to_rect_def init len h'(1) prod.case sum.case)
  have co: "contours h' = contours h @ [?new]" using h'(2) by simp
  have fr: "\<forall>q. q \<noteq> ?p \<longrightarrow> arrays h' q = arrays h q" using h'(3) by simp
  have pts: "\<forall>k<n. data (arrays h' ?p) ! (2 * k) = data (arrays h ?p) ! (2 * k) - rect_x rect
                \<and> data (arrays h' ?p) ! (2 * k + 1) = data (arrays h ?p) ! (2 * k + 1) - rect_y rect"
    using h'(6) by simp
  show ?thesis using run co fr h'(4,5) pts by blast
qed

text \<open>
  C2. For a contour whose points array has the shape \<open>(n, 1, 2)\<close> of the arrays of
  \<^verbatim>\<open>cv.findContours\<close> and whose moments have the key \<^verbatim>\<open>m00\<close>,
  \<^verbatim>\<open>scale_contour_to_rect(c, rect)\<close> returns a contour of the same length whose moment
  dictionary is that of \<open>c\<close> and whose \<open>i\<close>-th point is the \<open>i\<close>-th point of \<open>c\<close> (as it
  was before the call) minus \<open>(rect.x, rect.y)\<close>, for every \<open>i < n\<close>.
\<close>

theorem scale_contour_translates:
  fixes h :: "('a::minus) heap"
  assumes "shape (arrays h (points (contours h ! c))) = [n, 1, 2]"
    and "nd_wf (arrays h (points (contours h ! c)))"
    and "moment (contours h ! c) ''m00'' \<noteq> None"
  shows "\<exists>c' h'. scale_contour_to_rect cv h c rect = (Inr c', h')
           \<and> moment (contours h' ! c') = moment (contours h ! c)
           \<and> Contour_len h' c' = Inr n
           \<and> (\<forall>i<n. \<exists>p q.
                 Contour_getitem h c (KInt (int i)) = Inr \<lparr>shape = [2], data = [p, q]\<rparr>
                 \<and> Contour_getitem h' c' (KInt (int i)) =
                     Inr \<lparr>shape = [2], data = [p - rect_x rect, q - rect_y rect]\<rparr>)"
proof -
  let ?p = "points (contours h ! c)"
  from assms(3) obtain ar where ar: "moment (contours h ! c) ''m00'' = Some ar" by auto
  from scale_contour_to_rect_ok [OF assms(1,2) ar, of cv rect] obtain h' where
    h': "scale_contour_to_rect cv h c rect = (Inr (length (contours h)), h')"
      "contours h' = contours h @ [\<lparr>points = ?p, moment = moment (contours h ! c), area = ar\<rparr>]"
      "shape (arrays h' ?p) = [n, 1, 2]" "nd_wf (arrays h' ?p)"
      "\<forall>k<n. data (arrays h' ?p) ! (2 * k) = data (arrays h ?p) ! (2 * k) - rect_x rect
                \<and> data (arrays h' ?p) ! (2 * k + 1) = data (arrays h ?p) ! (2 * k + 1) - rect_y rect"
    by blast
  let ?c' = "length (contours h)"
  have new: "contours h' ! ?c' = \<lparr>points = ?p, moment = moment (contours h ! c), area = ar\<rparr>"
    using h'(2) by simp
  have p': "points (contours h' ! ?c') = ?p" using new by simp
  have len: "Contour_len h' ?c' = Inr n"
    using h'(3) by (simp add: Contour_len_def nd_len_def p')
  have pts: "\<forall>i<n. \<exists>p q.
                 Contour_getitem h c (KInt (int i)) = Inr \<lparr>shape = [2], data = [p, q]\<rparr>
                 \<and> Contour_getitem h' ?c' (KInt (int i)) =
                     Inr \<lparr>shape = [2], data = [p - rect_x rect, q - rect_y rect]\<rparr>"
  proof (intro allI impI)
    fix i assume i: "i < n"
    have old: "Contour_getitem h c (KInt (int i)) =
                 Inr \<lparr>shape = [2], data = [data (arrays h ?p) ! (2 * i),
                                           data (arrays h ?p) ! (2 * i + 1)]\<rparr>"
      by (rule Contour_getitem_point [OF assms(1,2) i])
    have sh': "shape (arrays h' (points (contours h' ! ?c'))) = [n, 1, 2]"
      "nd_wf (arrays h' (points (contours h' ! ?c')))"
      using h'(3,4) by (simp_all add: p')
    have "Contour_getitem h' ?c' (KInt (int i)) =
            Inr \<lparr>shape = [2], data = [data (arrays h' ?p) ! (2 * i),
                                      data (arrays h' ?p) ! (2 * i + 1)]\<rparr>"
      using Contour_getitem_point [OF sh' i] by (simp add: p')
    then have "Contour_getitem h' ?c' (KInt (int i)) =
            Inr \<lparr>shape = [2], data = [data (arrays h ?p) ! (2 * i) - rect_x rect,
                                      data (arrays h ?p) ! (2 * i + 1) - rect_y rect]\<rparr>"
      using h'(5) i by simp
    with old show "\<exists>p q.
                 Contour_getitem h c (KInt (int i)) = Inr \<lparr>shape = [2], data = [p, q]\<rparr>
                 \<and> Contour_getitem h' ?c' (KInt (int i)) =
                     Inr \<lparr>shape = [2], data = [p - rect_x rect, q - rect_y rect]\<rparr>"
      by blast
  qed
  have mo: "moment (contours h' ! ?c') = moment (contours h ! c)" using new by simp
  show ?thesis using h'(1) mo len pts by blast
qed

theorem scale_contour_translates_witness:
  "shape (arrays demo_heap (points (contours demo_heap ! 0))) = [2, 1, 2]
   \<and> nd_wf (arrays demo_heap (points (contours demo_heap ! 0)))
   \<and> moment (contours demo_heap ! 0) ''m00'' \<noteq> None
   \<and> (\<exists>c' h'. scale_contour_to_rect demo_cv demo_heap 0 demo_rect = (Inr c', h')
         \<and> moment (contours h' ! c') ''m00'' = Some 4
         \<and> Contour_len h' c' = Inr 2
         \<and> Contour_getitem h' c' (KInt 0) = Inr \<lparr>shape = [2], data = [9, 18]\<rparr>
         \<and> Contour_getitem h' c' (KInt 1) = Inr \<lparr>shape = [2], data = [29, 38]\<rparr>)"
proof -
  from scale_contour_translates [OF demo_heap_facts(1,2,3), of demo_cv demo_rect]
  obtain c' h' where
    r: "scale_contour_to_rect demo_cv demo_heap 0 demo_rect = (Inr c', h')"
      "moment (contours h' ! c') = moment (contours demo_heap ! 0)"
      "Contour_len h' c' = Inr 2"
      "\<forall>i<2. \<exists>p q.
          Contour_getitem demo_heap 0 (KInt (int i)) = Inr \<lparr>shape = [2], data = [p, q]\<rparr>
          \<and> Contour_getitem h' c' (KInt (int i)) =
              Inr \<lparr>shape = [2], data = [p - rect_x demo_rect, q - rect_y demo_rect]\<rparr>"
    by blast
  have "Contour_getitem h' c' (KInt 0) = Inr \<lparr>shape = [2], data = [9, 18]\<rparr>"
    using r(4) [rule_format, of 0] demo_heap_points(1) by (auto simp: demo_rect_def)
  moreover have "Contour_getitem h' c' (KInt 1) = Inr \<lparr>shape = [2], data = [29, 38]\<rparr>"
    using r(4) [rule_format, of 1] demo_heap_points(2) by (auto simp: demo_rect_def)
  moreover have "moment (contours h' ! c') ''m00'' = Some 4"
    using r(2) by (simp add: demo_heap_def)
  ultimately show ?thesis using r(1,3) demo_heap_facts by blast
qed

text \<open>
  C9. The contour returned by \<^verbatim>\<open>scale_contour_to_rect\<close> is a new object over the points
  array of the argument: after the call the points read through the argument contour are
  translated by \<open>(-rect.x, -rect.y)\<close> as well. Nothing else is written: the argument
  object (its array reference, moment dictionary and area) and every other contour object
  are as before, and so is every array but the points array.
\<close>

theorem scale_contour_aliases_argument:
  fixes h :: "('a::minus) heap"
  assumes "c < length (contours h)"
    and "shape (arrays h (points (contours h ! c))) = [n, 1, 2]"
    and "nd_wf (arrays h (points (contours h ! c)))"
    and "moment (contours h ! c) ''m00'' \<noteq> None"
  shows "\<exists>c' h'. scale_contour_to_rect cv h c rect = (Inr c', h')
           \<and> c' \<noteq> c
           \<and> points (contours h' ! c') = points (contours h ! c)
           \<and> take (length (contours h)) (contours h') = contours h
           \<and> contours h' ! c = contours h ! c
           \<and> (\<forall>i<n. \<exists>p q.
                 Contour_getitem h c (KInt (int i)) = Inr \<lparr>shape = [2], data = [p, q]\<rparr>
                 \<and> Contour_getitem h' c (KInt (int i)) =
                     Inr \<lparr>shape = [2], data = [p - rect_x rect, q - rect_y rect]\<rparr>)
           \<and> (\<forall>q. q \<noteq> points (contours h ! c) \<longrightarrow> arrays h' q = arrays h q)"
proof -
  let ?p = "points (contours h ! c)"
  from assms(4) obtain ar where ar: "moment (contours h ! c) ''m00'' = Some ar" by auto
  from scale_contour_to_rect_ok [OF assms(2,3) ar, of cv rect] obtain h' where
    h': "scale_contour_to_rect cv h c rect = (Inr (length (contours h)), h')"
      "contours h' = contours h @ [\<lparr>points = ?p, moment = moment (contours h ! c), area = ar\<rparr>]"
      "\<forall>q. q \<noteq> ?p \<longrightarrow> arrays h' q = arrays h q"
      "shape (arrays h' ?p) = [n, 1, 2]" "nd_wf (arrays h' ?p)"
      "\<forall>k<n. data (arrays h' ?p) ! (2 * k) = data (arrays h ?p) ! (2 * k) - rect_x rect
                \<and> data (arrays h' ?p) ! (2 * k + 1) = data (arrays h ?p) ! (2 * k + 1) - rect_y rect"
    by blast
  let ?c' = "length (contours h)"
  have ne: "?c' \<noteq> c" using assms(1) by simp
  have shared: "points (contours h' ! ?c') = ?p" using h'(2) by simp
  have old: "take ?c' (contours h') = contours h" using h'(2) by simp
  have arg: "contours h' ! c = contours h ! c" using h'(2) assms(1) by (simp add: nth_append)
  have pts: "\<forall>i<n. \<exists>p q.
                 Contour_getitem h c (KInt (int i)) = Inr \<lparr>shape = [2], data = [p, q]\<rparr>
                 \<and> Contour_getitem h' c (KInt (int i)) =
                     Inr \<lparr>shape = [2], data = [p - rect_x rect, q - rect_y rect]\<rparr>"
  proof (intro allI impI)
    fix i assume i: "i < n"
    have before: "Contour_getitem h c (KInt (int i)) =
                 Inr \<lparr>shape = [2], data = [data (arrays h ?p) ! (2 * i),
                                           data (arrays h ?p) ! (2 * i + 1)]\<rparr>"
      by (rule Contour_getitem_point [OF assms(2,3) i])
    have sh': "shape (arrays h' (points (contours h' ! c))) = [n, 1, 2]"
      "nd_wf (arrays h' (points (contours h' ! c)))"
      using h'(4,5) by (simp_all add: arg)
    have "Contour_getitem h' c (KInt (int i)) =
            Inr \<lparr>shape = [2], data = [data (arrays h' ?p) ! (2 * i),
                                      data (arrays h' ?p) ! (2 * i + 1)]\<rparr>"
      using Contour_getitem_point [OF sh' i] by (simp add: arg)
    then have "Contour_getitem h' c (KInt (int i)) =
            Inr \<lparr>shape = [2], data = [data (arrays h ?p) ! (2 * i) - rect_x rect,
                                      data (arrays h ?p) ! (2 * i + 1) - rect_y rect]\<rparr>"
      using h'(6) i by simp
    with before show "\<exists>p q.
                 Contour_getitem h c (KInt (int i)) = Inr \<lparr>shape = [2], data = [p, q]\<rparr>
                 \<and> Contour_getitem h' c (KInt (int i)) =
                     Inr \<lparr>shape = [2], data = [p - rect_x rect, q - rect_y rect]\<rparr>"
      by blast
  qed
  show ?thesis using h'(1,3) ne shared old arg pts by blast
qed

theorem scale_contour_aliases_argument_witness:
  "0 < length (contours demo_heap)
   \<and> shape (arrays demo_heap (points (contours demo_heap ! 0))) = [2, 1, 2]
   \<and> nd_wf (arrays demo_heap (points (contours demo_heap ! 0)))
   \<and> moment (contours demo_heap ! 0) ''m00'' \<noteq> None
   \<and> (\<exists>c' h'. scale_contour_to_rect demo_cv demo_heap 0 demo_rect = (Inr c', h')
         \<and> c' \<noteq> 0
         \<and> points (contours h' ! c') = 0
         \<and> area (contours h' ! 0) = 4
         \<and> moment (contours h' ! 0) ''m00'' = Some 4
         \<and> Contour_getitem h' 0 (KInt 1) = Inr \<lparr>shape = [2], data = [29, 38]\<rparr>
         \<and> Contour_getitem demo_heap 0 (KInt 1) = Inr \<lparr>shape = [2], data = [30, 40]\<rparr>
         \<and> arrays h' 1 = arrays demo_heap 1)"
proof -
  from scale_contour_aliases_argument [OF demo_heap_facts(4,1,2,3), of demo_cv demo_rect]
  obtain c' h' where
    r: "scale_contour_to_rect demo_cv demo_heap 0 demo_rect = (Inr c', h')" "c' \<noteq> 0"
      "points (contours h' ! c') = points (contours demo_heap ! 0)"
      "contours h' ! 0 = contours demo_heap ! 0"
      "\<forall>i<2. \<exists>p q.
          Contour_getitem demo_heap 0 (KInt (int i)) = Inr \<lparr>shape = [2], data = [p, q]\<rparr>
          \<and> Contour_getitem h' 0 (KInt (int i)) =
              Inr \<lparr>shape = [2], data = [p - rect_x demo_rect, q - rect_y demo_rect]\<rparr>"
      "\<forall>q. q \<noteq> points (contours demo_heap ! 0) \<longrightarrow> arrays h' q = arrays demo_heap q"
    by blast
  have "Contour_getitem h' 0 (KInt 1) = Inr \<lparr>shape = [2], data = [29, 38]\<rparr>"
    using r(5) [rule_format, of 1] demo_heap_points(2) by (auto simp: demo_rect_def)
  moreover have "points (contours h' ! c') = 0" using r(3) by (simp add: demo_heap_def)
  moreover have "area (contours h' ! 0) = 4" "moment (contours h' ! 0) ''m00'' = Some 4"
    using r(4) by (simp_all add: demo_heap_def)
  moreover have "arrays h' 1 = arrays demo_heap 1"
    using r(6) [rule_format, of 1] by (simp add: demo_heap_def)
  ultimately show ?thesis using r(1,2) demo_heap_facts demo_heap_points(2) by blast
qed

end
